theory Spec2Isabelle
  imports Main
begin

section \<open>The appointment controller of the booking backend\<close>

text \<open>
  The four lifecycle handlers \<^verbatim>\<open>bookAppointment\<close>, \<^verbatim>\<open>updateAppointmentStatus\<close>,
  \<^verbatim>\<open>cancelAppointment\<close> and \<^verbatim>\<open>completeAppointment\<close> (the controller part of
  \<^verbatim>\<open>src/models/Department.js\<close>, lines 101--722) and the appointment schema of
  \<^verbatim>\<open>src/models/Appointment.js\<close>, as functions on an explicit database.

  \<^item> A Mongo collection is the list of its documents in insertion order; \<^verbatim>\<open>findOne\<close>
    and \<^verbatim>\<open>findById\<close> return the first match.
  \<^item> An ObjectId is a natural number; the ids of a request are taken to be well-formed.
  \<^item> A handler returns the HTTP response it sends together with the database it leaves.
  \<^item> Every exception of a handler body ends in its \<^verbatim>\<open>catch\<close> block, which answers 500;
    the field \<^verbatim>\<open>error: error.message\<close> is kept as the kind of the exception.
  \<^item> \<^verbatim>\<open>sendAppointmentEmail\<close> is imported from \<^verbatim>\<open>utils/sendEmail.js\<close>, which is not
    among the files modelled here. The handlers take it as a parameter: applied to the
    recipient and the subject it tells whether the awaited promise resolves (\<open>True\<close>)
    or rejects (\<open>False\<close>). The body text of a mail is not modelled.
\<close>

subsection \<open>Documents\<close>

type_synonym oid = nat

record user_doc =
  u_id :: oid
  u_email :: string

record student_doc =
  s_id :: oid
  s_user :: oid
  s_name :: string
  s_appointments :: "oid list"

record faculty_doc =
  f_id :: oid
  f_user :: oid
  f_name :: string
  f_appointments :: "oid list"

text \<open>
  The fields of a slot are the ones the controller reads and writes
  (\<^verbatim>\<open>models/Availability.js\<close> is not among the files modelled here).
\<close>

record availability_doc =
  v_id :: oid
  v_faculty :: oid
  v_startTime :: string
  v_endTime :: string
  v_isActive :: bool
  v_isBooked :: bool

text \<open>
  \<^verbatim>\<open>appointmentSchema\<close>: \<open>status\<close> is one of the five strings of its enum,
  \<open>cancelledBy\<close> is \<^verbatim>\<open>null\<close> (\<open>None\<close>) by default, \<open>cancelReason\<close> has no default.
\<close>

record appointment_doc =
  a_id :: oid
  a_student :: oid
  a_faculty :: oid
  a_availability :: oid
  a_date :: int
  a_startTime :: string
  a_endTime :: string
  a_purpose :: string
  a_status :: string
  a_cancelledBy :: "string option"
  a_cancelReason :: "string option"

record db =
  users :: "user_doc list"
  students :: "student_doc list"
  faculties :: "faculty_doc list"
  availabilities :: "availability_doc list"
  appointments :: "appointment_doc list"

subsection \<open>Responses\<close>

datatype exn = CastError | ValidationError | TypeError | SendError

record response =
  r_status :: nat
  r_success :: bool
  r_message :: string
  r_data :: "appointment_doc option"
  r_error :: "exn option"

definition reject :: "nat \<Rightarrow> string \<Rightarrow> response" where
  "reject code msg =
     \<lparr>r_status = code, r_success = False, r_message = msg, r_data = None, r_error = None\<rparr>"

definition respond :: "nat \<Rightarrow> string \<Rightarrow> appointment_doc \<Rightarrow> response" where
  "respond code msg a =
     \<lparr>r_status = code, r_success = True, r_message = msg, r_data = Some a, r_error = None\<rparr>"

definition server_error :: "exn \<Rightarrow> response" where
  "server_error e =
     \<lparr>r_status = 500, r_success = False, r_message = ''Server error'', r_data = None,
      r_error = Some e\<rparr>"

type_synonym mailer = "string \<Rightarrow> string \<Rightarrow> bool"

subsection \<open>Queries and writes\<close>

definition findUser :: "db \<Rightarrow> oid \<Rightarrow> user_doc option" where
  "findUser d i = find (\<lambda>u. u_id u = i) (users d)"

definition findStudentByUser :: "db \<Rightarrow> oid \<Rightarrow> student_doc option" where
  "findStudentByUser d uid = find (\<lambda>s. s_user s = uid) (students d)"

definition findStudent :: "db \<Rightarrow> oid \<Rightarrow> student_doc option" where
  "findStudent d i = find (\<lambda>s. s_id s = i) (students d)"

definition findFacultyByUser :: "db \<Rightarrow> oid \<Rightarrow> faculty_doc option" where
  "findFacultyByUser d uid = find (\<lambda>f. f_user f = uid) (faculties d)"

definition findFaculty :: "db \<Rightarrow> oid \<Rightarrow> faculty_doc option" where
  "findFaculty d i = find (\<lambda>f. f_id f = i) (faculties d)"

definition findAvailability :: "db \<Rightarrow> oid \<Rightarrow> availability_doc option" where
  "findAvailability d i = find (\<lambda>v. v_id v = i) (availabilities d)"

definition findAppointment :: "db \<Rightarrow> oid \<Rightarrow> appointment_doc option" where
  "findAppointment d i = find (\<lambda>a. a_id a = i) (appointments d)"

text \<open>
  The query of the double-booking guard (lines 158--162): the student's appointment on
  the same \<open>date\<close> whose status is pending or accepted.
\<close>

definition findActiveOnDate :: "db \<Rightarrow> oid \<Rightarrow> int \<Rightarrow> appointment_doc option" where
  "findActiveOnDate d sid day =
     find (\<lambda>a. a_student a = sid \<and> a_date a = day \<and>
                (a_status a = ''pending'' \<or> a_status a = ''accepted'')) (appointments d)"

text \<open>
  \<^verbatim>\<open>doc.save()\<close> of a document that was read before writes the changed fields to the
  stored document with the same \<^verbatim>\<open>_id\<close>.
\<close>

fun updateOne :: "('a \<Rightarrow> bool) \<Rightarrow> ('a \<Rightarrow> 'a) \<Rightarrow> 'a list \<Rightarrow> 'a list" where
  "updateOne P f [] = []"
| "updateOne P f (x # xs) = (if P x then f x # xs else x # updateOne P f xs)"

definition setBooked :: "oid \<Rightarrow> bool \<Rightarrow> db \<Rightarrow> db" where
  "setBooked i b d =
     d\<lparr>availabilities :=
         updateOne (\<lambda>v. v_id v = i) (\<lambda>v. v\<lparr>v_isBooked := b\<rparr>) (availabilities d)\<rparr>"

definition pushStudentAppointment :: "oid \<Rightarrow> oid \<Rightarrow> db \<Rightarrow> db" where
  "pushStudentAppointment i n d =
     d\<lparr>students :=
         updateOne (\<lambda>s. s_id s = i) (\<lambda>s. s\<lparr>s_appointments := s_appointments s @ [n]\<rparr>)
           (students d)\<rparr>"

definition pushFacultyAppointment :: "oid \<Rightarrow> oid \<Rightarrow> db \<Rightarrow> db" where
  "pushFacultyAppointment i n d =
     d\<lparr>faculties :=
         updateOne (\<lambda>f. f_id f = i) (\<lambda>f. f\<lparr>f_appointments := f_appointments f @ [n]\<rparr>)
           (faculties d)\<rparr>"

definition saveAppointment :: "oid \<Rightarrow> (appointment_doc \<Rightarrow> appointment_doc) \<Rightarrow> db \<Rightarrow> db" where
  "saveAppointment i f d =
     d\<lparr>appointments := updateOne (\<lambda>a. a_id a = i) f (appointments d)\<rparr>"

text \<open>The slot release shared by reject, cancel and complete: skipped when the slot is gone.\<close>

definition releaseSlot :: "oid \<Rightarrow> db \<Rightarrow> db" where
  "releaseSlot i d =
     (case findAvailability d i of None \<Rightarrow> d | Some availability \<Rightarrow> setBooked (v_id availability) False d)"

text \<open>A server-generated \<^verbatim>\<open>_id\<close>: one that no stored appointment has.\<close>

definition fresh_id :: "appointment_doc list \<Rightarrow> oid" where
  "fresh_id as = Suc (foldr max (map a_id as) 0)"

subsection \<open>Schema validation (\<^verbatim>\<open>src/models/Appointment.js\<close>)\<close>

definition is_digit :: "char \<Rightarrow> bool" where
  "is_digit c = (c \<in> set ''0123456789'')"

text \<open>The pattern \<^verbatim>\<open>/^([01]\d|2[0-3]):([0-5]\d)$/\<close> of \<open>startTime\<close> and \<open>endTime\<close>.\<close>

definition valid_time :: "string \<Rightarrow> bool" where
  "valid_time t =
     (case t of
        [h1, h2, c, m1, m2] \<Rightarrow>
          ((h1 \<in> set ''01'' \<and> is_digit h2) \<or> (h1 = CHR ''2'' \<and> h2 \<in> set ''0123'')) \<and>
          c = CHR '':'' \<and> m1 \<in> set ''012345'' \<and> is_digit m2
      | _ \<Rightarrow> False)"

text \<open>
  \<^verbatim>\<open>Appointment.create\<close> validates the new document: the references, the date and the
  status are present and well-formed where it is called; \<open>purpose\<close> is required (not
  empty) and at most 200 characters, both times are required and match the pattern.
\<close>

definition validate_new :: "appointment_doc \<Rightarrow> bool" where
  "validate_new a \<longleftrightarrow>
     a_purpose a \<noteq> [] \<and> length (a_purpose a) \<le> 200 \<and>
     valid_time (a_startTime a) \<and> valid_time (a_endTime a)"

text \<open>
  \<^verbatim>\<open>save\<close> validates the modified paths: the statuses the handlers assign are in the
  enum, a \<open>cancelReason\<close> that was assigned is at most 200 characters. A reason that is
  absent or empty is falsy and is not assigned.
\<close>

definition validate_reason :: "string \<Rightarrow> bool" where
  "validate_reason reason \<longleftrightarrow> length reason \<le> 200"

definition withReason :: "string \<Rightarrow> appointment_doc \<Rightarrow> appointment_doc" where
  "withReason reason a = (if reason = [] then a else a\<lparr>a_cancelReason := Some reason\<rparr>)"

subsection \<open>\<^verbatim>\<open>bookAppointment\<close> (lines 101--230)\<close>

text \<open>What the handler holds when its checks have passed (line 170).\<close>

record booking =
  b_student :: student_doc
  b_faculty :: faculty_doc
  b_availability :: availability_doc
  b_date :: int

text \<open>
  Lines 103--169, which only read. \<open>date\<close> is the parsed \<^verbatim>\<open>new Date(date)\<close>, \<open>None\<close>
  for an invalid date, which the query of line 158 refuses to cast.
\<close>

definition book_checks :: "db \<Rightarrow> oid \<Rightarrow> oid \<Rightarrow> oid \<Rightarrow> int option \<Rightarrow> response + booking" where
  "book_checks d uid facultyId availabilityId date =
     (case findStudentByUser d uid of
        None \<Rightarrow> Inl (reject 404 ''Student not found'')
      | Some student \<Rightarrow>
     (case findFaculty d facultyId of
        None \<Rightarrow> Inl (reject 404 ''Faculty not found'')
      | Some faculty \<Rightarrow>
     (case findAvailability d availabilityId of
        None \<Rightarrow> Inl (reject 404 ''Availability slot not found'')
      | Some availability \<Rightarrow>
          if v_faculty availability \<noteq> facultyId
          then Inl (reject 400 ''Availability slot does not belong to this faculty'')
          else if \<not> v_isActive availability
          then Inl (reject 400 ''Availability slot is not active'')
          else if v_isBooked availability
          then Inl (reject 400 ''Availability slot is already booked'')
          else
            (case date of
               None \<Rightarrow> Inl (server_error CastError)
             | Some appointmentDate \<Rightarrow>
                 (case findActiveOnDate d (s_id student) appointmentDate of
                    Some existingAppointment \<Rightarrow>
                      Inl (reject 400 ''You already have an appointment at this time'')
                  | None \<Rightarrow>
                      Inr \<lparr>b_student = student, b_faculty = faculty,
                           b_availability = availability, b_date = appointmentDate\<rparr>)))))"

definition new_appointment :: "db \<Rightarrow> booking \<Rightarrow> string \<Rightarrow> appointment_doc" where
  "new_appointment d b purpose =
     \<lparr>a_id = fresh_id (appointments d),
      a_student = s_id (b_student b),
      a_faculty = f_id (b_faculty b),
      a_availability = v_id (b_availability b),
      a_date = b_date b,
      a_startTime = v_startTime (b_availability b),
      a_endTime = v_endTime (b_availability b),
      a_purpose = purpose,
      a_status = ''pending'',
      a_cancelledBy = None,
      a_cancelReason = None\<rparr>"

text \<open>Lines 194--215: the two users are read, then the two mails are sent in turn.\<close>

definition book_notify :: "mailer \<Rightarrow> db \<Rightarrow> booking \<Rightarrow> exn option" where
  "book_notify send d b =
     (case findUser d (s_user (b_student b)) of
        None \<Rightarrow> Some TypeError
      | Some studentUser \<Rightarrow>
          if \<not> send (u_email studentUser) ''Appointment Request Submitted'' then Some SendError
          else
            (case findUser d (f_user (b_faculty b)) of
               None \<Rightarrow> Some TypeError
             | Some facultyUser \<Rightarrow>
                 if \<not> send (u_email facultyUser) ''New Appointment Request'' then Some SendError
                 else None))"

text \<open>Lines 171--229: the four writes, the mails, the response.\<close>

definition book_writes :: "mailer \<Rightarrow> db \<Rightarrow> booking \<Rightarrow> string \<Rightarrow> response \<times> db" where
  "book_writes send d b purpose =
     (let appointment = new_appointment d b purpose in
      if \<not> validate_new appointment then (server_error ValidationError, d)
      else
        let d1 = d\<lparr>appointments := appointments d @ [appointment]\<rparr>;
            d2 = setBooked (v_id (b_availability b)) True d1;
            d3 = pushStudentAppointment (s_id (b_student b)) (a_id appointment) d2;
            d4 = pushFacultyAppointment (f_id (b_faculty b)) (a_id appointment) d3
        in (case book_notify send d4 b of
              Some e \<Rightarrow> (server_error e, d4)
            | None \<Rightarrow> (respond 201 ''Appointment booked successfully'' appointment, d4)))"

definition bookAppointment ::
  "mailer \<Rightarrow> db \<Rightarrow> oid \<Rightarrow> oid \<Rightarrow> oid \<Rightarrow> int option \<Rightarrow> string \<Rightarrow> response \<times> db" where
  "bookAppointment send d uid facultyId availabilityId date purpose =
     (case book_checks d uid facultyId availabilityId date of
        Inl r \<Rightarrow> (r, d)
      | Inr b \<Rightarrow> book_writes send d b purpose)"

subsection \<open>\<^verbatim>\<open>updateAppointmentStatus\<close> (lines 370--467)\<close>

text \<open>Lines 435--452: the student and the users are read, one mail goes to the student.\<close>

definition status_notify :: "mailer \<Rightarrow> db \<Rightarrow> appointment_doc \<Rightarrow> string \<Rightarrow> exn option" where
  "status_notify send d appointment status =
     (case findStudent d (a_student appointment) of
        None \<Rightarrow> Some TypeError
      | Some student \<Rightarrow>
     (case findUser d (s_user student) of
        None \<Rightarrow> Some TypeError
      | Some studentUser \<Rightarrow>
          if \<not> send (u_email studentUser)
                 (if status = ''accepted'' then ''Appointment Accepted'' else ''Appointment Rejected'')
          then Some SendError else None))"

definition updateAppointmentStatus ::
  "mailer \<Rightarrow> db \<Rightarrow> oid \<Rightarrow> oid \<Rightarrow> string \<Rightarrow> string \<Rightarrow> response \<times> db" where
  "updateAppointmentStatus send d uid appointmentId status reason =
     (if status \<noteq> ''accepted'' \<and> status \<noteq> ''rejected''
      then (reject 400 ''Invalid status. Status must be accepted or rejected'', d)
      else
     (case findFacultyByUser d uid of
        None \<Rightarrow> (reject 404 ''Faculty not found'', d)
      | Some faculty \<Rightarrow>
     (case findAppointment d appointmentId of
        None \<Rightarrow> (reject 404 ''Appointment not found'', d)
      | Some appointment \<Rightarrow>
          if a_faculty appointment \<noteq> f_id faculty
          then (reject 403 ''Not authorized to update this appointment'', d)
          else if a_status appointment \<noteq> ''pending''
          then (reject 400 (''Appointment is already '' @ a_status appointment), d)
          else
            let change = (\<lambda>a. (if status = ''rejected'' then withReason reason a else a)
                                 \<lparr>a_status := status\<rparr>)
            in
            if status = ''rejected'' \<and> reason \<noteq> [] \<and> \<not> validate_reason reason
            then (server_error ValidationError, d)
            else
              let d1 = saveAppointment (a_id appointment) change d;
                  d2 = (if status = ''rejected''
                        then releaseSlot (a_availability appointment) d1 else d1)
              in (case status_notify send d2 appointment status of
                    Some e \<Rightarrow> (server_error e, d2)
                  | None \<Rightarrow>
                      (respond 200
                         (''Appointment '' @
                          (if status = ''accepted'' then ''accepted'' else ''rejected'') @
                          '' successfully'')
                         (change appointment), d2)))))"

subsection \<open>\<^verbatim>\<open>cancelAppointment\<close> (lines 501--619)\<close>

text \<open>
  Lines 531--559: the caller is a student when a student document carries their user
  id, and only otherwise looked up as a faculty member.
\<close>

definition cancel_role :: "db \<Rightarrow> oid \<Rightarrow> appointment_doc \<Rightarrow> response + string" where
  "cancel_role d uid appointment =
     (case findStudentByUser d uid of
        Some student \<Rightarrow>
          if a_student appointment \<noteq> s_id student
          then Inl (reject 403 ''Not authorized to cancel this appointment'')
          else Inr ''student''
      | None \<Rightarrow>
          (case findFacultyByUser d uid of
             None \<Rightarrow> Inl (reject 404 ''User not found'')
           | Some faculty \<Rightarrow>
               if a_faculty appointment \<noteq> f_id faculty
               then Inl (reject 403 ''Not authorized to cancel this appointment'')
               else Inr ''faculty''))"

text \<open>Lines 576--604: both parties and their users are read, then both are mailed.\<close>

definition cancel_notify :: "mailer \<Rightarrow> db \<Rightarrow> appointment_doc \<Rightarrow> exn option" where
  "cancel_notify send d appointment =
     (case findStudent d (a_student appointment) of
        None \<Rightarrow> Some TypeError
      | Some studentObj \<Rightarrow>
     (case findFaculty d (a_faculty appointment) of
        None \<Rightarrow> Some TypeError
      | Some facultyObj \<Rightarrow>
     (case findUser d (s_user studentObj) of
        None \<Rightarrow> Some TypeError
      | Some studentUser \<Rightarrow>
          if \<not> send (u_email studentUser) ''Appointment Cancelled'' then Some SendError
          else
            (case findUser d (f_user facultyObj) of
               None \<Rightarrow> Some TypeError
             | Some facultyUser \<Rightarrow>
                 if \<not> send (u_email facultyUser) ''Appointment Cancelled'' then Some SendError
                 else None))))"

definition cancelAppointment ::
  "mailer \<Rightarrow> db \<Rightarrow> oid \<Rightarrow> oid \<Rightarrow> string \<Rightarrow> response \<times> db" where
  "cancelAppointment send d uid appointmentId reason =
     (case findAppointment d appointmentId of
        None \<Rightarrow> (reject 404 ''Appointment not found'', d)
      | Some appointment \<Rightarrow>
          if a_status appointment = ''cancelled''
          then (reject 400 ''Appointment is already cancelled'', d)
          else if a_status appointment = ''rejected''
          then (reject 400 ''Cannot cancel a rejected appointment'', d)
          else
            (case cancel_role d uid appointment of
               Inl r \<Rightarrow> (r, d)
             | Inr role \<Rightarrow>
                 let change = (\<lambda>a. (withReason reason a)
                                      \<lparr>a_status := ''cancelled'', a_cancelledBy := Some role\<rparr>)
                 in
                 if reason \<noteq> [] \<and> \<not> validate_reason reason
                 then (server_error ValidationError, d)
                 else
                   let d1 = saveAppointment (a_id appointment) change d;
                       d2 = releaseSlot (a_availability appointment) d1
                   in (case cancel_notify send d2 appointment of
                         Some e \<Rightarrow> (server_error e, d2)
                       | None \<Rightarrow>
                           (respond 200 ''Appointment cancelled successfully''
                              (change appointment), d2))))"

subsection \<open>\<^verbatim>\<open>completeAppointment\<close> (lines 645--722)\<close>

definition complete_notify :: "mailer \<Rightarrow> db \<Rightarrow> appointment_doc \<Rightarrow> exn option" where
  "complete_notify send d appointment =
     (case findStudent d (a_student appointment) of
        None \<Rightarrow> Some TypeError
      | Some student \<Rightarrow>
     (case findUser d (s_user student) of
        None \<Rightarrow> Some TypeError
      | Some studentUser \<Rightarrow>
          if \<not> send (u_email studentUser) ''Appointment Completed'' then Some SendError
          else None))"

definition completeAppointment :: "mailer \<Rightarrow> db \<Rightarrow> oid \<Rightarrow> oid \<Rightarrow> response \<times> db" where
  "completeAppointment send d uid appointmentId =
     (case findFacultyByUser d uid of
        None \<Rightarrow> (reject 404 ''Faculty not found'', d)
      | Some faculty \<Rightarrow>
     (case findAppointment d appointmentId of
        None \<Rightarrow> (reject 404 ''Appointment not found'', d)
      | Some appointment \<Rightarrow>
          if a_faculty appointment \<noteq> f_id faculty
          then (reject 403 ''Not authorized to complete this appointment'', d)
          else if a_status appointment \<noteq> ''accepted''
          then (reject 400
                  (''Appointment must be accepted before it can be completed. Current status: '' @
                   a_status appointment), d)
          else
            let change = (\<lambda>a. a\<lparr>a_status := ''completed''\<rparr>);
                d1 = saveAppointment (a_id appointment) change d;
                d2 = releaseSlot (a_availability appointment) d1
            in (case complete_notify send d2 appointment of
                  Some e \<Rightarrow> (server_error e, d2)
                | None \<Rightarrow>
                    (respond 200 ''Appointment marked as completed'' (change appointment), d2))))"

subsection \<open>A small campus\<close>

text \<open>
  Two students, Ann (user 1) and Bob (user 2); two faculty members, Rao (user 3) and Sen
  (user 4); Rao's slots 31 (09:00 to 10:00, active) and 32 (inactive), Sen's slot 33.
  The parameters are the appointment lists of Ann, Bob and Rao, the booked flag of slot
  31 and the appointments.
\<close>

definition campus_at ::
  "oid list \<Rightarrow> oid list \<Rightarrow> oid list \<Rightarrow> bool \<Rightarrow> appointment_doc list \<Rightarrow> db" where
  "campus_at ann bob rao booked as =
     \<lparr>users = [\<lparr>u_id = 1, u_email = ''ann@campus.edu''\<rparr>,
               \<lparr>u_id = 2, u_email = ''bob@campus.edu''\<rparr>,
               \<lparr>u_id = 3, u_email = ''rao@campus.edu''\<rparr>,
               \<lparr>u_id = 4, u_email = ''sen@campus.edu''\<rparr>],
      students = [\<lparr>s_id = 11, s_user = 1, s_name = ''Ann'', s_appointments = ann\<rparr>,
                  \<lparr>s_id = 12, s_user = 2, s_name = ''Bob'', s_appointments = bob\<rparr>],
      faculties = [\<lparr>f_id = 21, f_user = 3, f_name = ''Rao'', f_appointments = rao\<rparr>,
                   \<lparr>f_id = 22, f_user = 4, f_name = ''Sen'', f_appointments = []\<rparr>],
      availabilities = [\<lparr>v_id = 31, v_faculty = 21, v_startTime = ''09:00'',
                         v_endTime = ''10:00'', v_isActive = True, v_isBooked = booked\<rparr>,
                        \<lparr>v_id = 32, v_faculty = 21, v_startTime = ''10:00'',
                         v_endTime = ''11:00'', v_isActive = False, v_isBooked = False\<rparr>,
                        \<lparr>v_id = 33, v_faculty = 22, v_startTime = ''14:00'',
                         v_endTime = ''15:00'', v_isActive = True, v_isBooked = False\<rparr>],
      appointments = as\<rparr>"

text \<open>The campus before any booking.\<close>

definition campus :: db where
  "campus = campus_at [] [] [] False []"

text \<open>Ann's appointment 1 with Rao in slot 31, and Bob's appointment 2 in the same slot.\<close>

definition ann_appointment :: "string \<Rightarrow> string option \<Rightarrow> appointment_doc" where
  "ann_appointment st who =
     \<lparr>a_id = 1, a_student = 11, a_faculty = 21, a_availability = 31, a_date = 100,
      a_startTime = ''09:00'', a_endTime = ''10:00'', a_purpose = ''thesis'',
      a_status = st, a_cancelledBy = who, a_cancelReason = None\<rparr>"

definition bob_appointment :: "string \<Rightarrow> appointment_doc" where
  "bob_appointment st =
     \<lparr>a_id = 2, a_student = 12, a_faculty = 21, a_availability = 31, a_date = 100,
      a_startTime = ''09:00'', a_endTime = ''10:00'', a_purpose = ''exam'',
      a_status = st, a_cancelledBy = None, a_cancelReason = None\<rparr>"

text \<open>The campus when Ann's appointment has status \<open>st\<close> and slot 31 the flag \<open>booked\<close>.\<close>

definition campus_with :: "string \<Rightarrow> bool \<Rightarrow> db" where
  "campus_with st booked = campus_at [1] [] [1] booked [ann_appointment st None]"

text \<open>The same campus after slot 31 has been deleted while Ann's appointment refers to it.\<close>

definition campus_gone :: "string \<Rightarrow> db" where
  "campus_gone st =
     (campus_with st True)
       \<lparr>availabilities :=
          [\<lparr>v_id = 32, v_faculty = 21, v_startTime = ''10:00'',
            v_endTime = ''11:00'', v_isActive = False, v_isBooked = False\<rparr>,
           \<lparr>v_id = 33, v_faculty = 22, v_startTime = ''14:00'',
            v_endTime = ''15:00'', v_isActive = True, v_isBooked = False\<rparr>]\<rparr>"

text \<open>
  What two requests for slot 31, Ann's and Bob's, hold after their checks when both
  have read the campus before either has written.
\<close>

definition ann_booking :: booking where
  "ann_booking =
     \<lparr>b_student = \<lparr>s_id = 11, s_user = 1, s_name = ''Ann'', s_appointments = []\<rparr>,
      b_faculty = \<lparr>f_id = 21, f_user = 3, f_name = ''Rao'', f_appointments = []\<rparr>,
      b_availability = \<lparr>v_id = 31, v_faculty = 21, v_startTime = ''09:00'',
                        v_endTime = ''10:00'', v_isActive = True, v_isBooked = False\<rparr>,
      b_date = 100\<rparr>"

definition bob_booking :: booking where
  "bob_booking = ann_booking
     \<lparr>b_student := \<lparr>s_id = 12, s_user = 2, s_name = ''Bob'', s_appointments = []\<rparr>\<rparr>"

text \<open>
  A \<^verbatim>\<open>sendAppointmentEmail\<close> whose promise resolves every time, and one whose promise
  rejects every time.
\<close>

definition always :: mailer where
  "always to subject = True"

definition never :: mailer where
  "never to subject = False"

section \<open>Lemmas on queries and writes\<close>

lemma find_updateOne:
  "(\<And>x. P (f x) = P x) \<Longrightarrow> find P (updateOne P f xs) = map_option f (find P xs)"
  by (induction xs) auto

lemma setBooked_frame [simp]:
  "users (setBooked i b d) = users d"
  "students (setBooked i b d) = students d"
  "faculties (setBooked i b d) = faculties d"
  "appointments (setBooked i b d) = appointments d"
  by (simp_all add: setBooked_def)

lemma saveAppointment_frame [simp]:
  "users (saveAppointment i f d) = users d"
  "students (saveAppointment i f d) = students d"
  "faculties (saveAppointment i f d) = faculties d"
  "availabilities (saveAppointment i f d) = availabilities d"
  by (simp_all add: saveAppointment_def)

lemma releaseSlot_frame [simp]:
  "users (releaseSlot i d) = users d"
  "students (releaseSlot i d) = students d"
  "faculties (releaseSlot i d) = faculties d"
  "appointments (releaseSlot i d) = appointments d"
  by (simp_all add: releaseSlot_def split: option.splits)

lemma pushStudentAppointment_frame [simp]:
  "users (pushStudentAppointment i n d) = users d"
  "faculties (pushStudentAppointment i n d) = faculties d"
  "availabilities (pushStudentAppointment i n d) = availabilities d"
  "appointments (pushStudentAppointment i n d) = appointments d"
  by (simp_all add: pushStudentAppointment_def)

lemma pushFacultyAppointment_frame [simp]:
  "users (pushFacultyAppointment i n d) = users d"
  "students (pushFacultyAppointment i n d) = students d"
  "availabilities (pushFacultyAppointment i n d) = availabilities d"
  "appointments (pushFacultyAppointment i n d) = appointments d"
  by (simp_all add: pushFacultyAppointment_def)

lemma findAppointment_id: "findAppointment d i = Some a \<Longrightarrow> a_id a = i"
  by (auto simp: findAppointment_def find_Some_iff)

lemma findAppointment_save [simp]:
  "(\<And>x. a_id (f x) = a_id x) \<Longrightarrow>
   findAppointment (saveAppointment i f d) i = map_option f (findAppointment d i)"
  by (simp add: findAppointment_def saveAppointment_def find_updateOne)

lemma findAppointment_release [simp]:
  "findAppointment (releaseSlot i d) j = findAppointment d j"
  by (simp add: findAppointment_def)

lemma findAvailability_setBooked [simp]:
  "findAvailability (setBooked i b d) i =
     map_option (\<lambda>v. v\<lparr>v_isBooked := b\<rparr>) (findAvailability d i)"
  by (simp add: findAvailability_def setBooked_def find_updateOne)

lemma findAvailability_save [simp]:
  "findAvailability (saveAppointment i f d) j = findAvailability d j"
  by (simp add: findAvailability_def)

lemma findAvailability_release [simp]:
  "findAvailability (releaseSlot i d) i =
     map_option (\<lambda>v. v\<lparr>v_isBooked := False\<rparr>) (findAvailability d i)"
proof (cases "findAvailability d i")
  case None
  then show ?thesis by (simp add: releaseSlot_def)
next
  case (Some v)
  then have "v_id v = i"
    by (auto simp: findAvailability_def find_Some_iff)
  with Some show ?thesis by (simp add: releaseSlot_def)
qed

lemma releaseSlot_missing: "findAvailability d i = None \<Longrightarrow> releaseSlot i d = d"
  by (simp add: releaseSlot_def)

lemma status_notify_frame:
  "users d' = users d \<Longrightarrow> students d' = students d \<Longrightarrow>
   status_notify send d' a st = status_notify send d a st"
  by (simp add: status_notify_def findStudent_def findUser_def cong: option.case_cong if_cong)

lemma complete_notify_frame:
  "users d' = users d \<Longrightarrow> students d' = students d \<Longrightarrow>
   complete_notify send d' a = complete_notify send d a"
  by (simp add: complete_notify_def findStudent_def findUser_def cong: option.case_cong if_cong)

lemma cancel_notify_frame:
  "users d' = users d \<Longrightarrow> students d' = students d \<Longrightarrow> faculties d' = faculties d \<Longrightarrow>
   cancel_notify send d' a = cancel_notify send d a"
  by (simp add: cancel_notify_def findStudent_def findFaculty_def findUser_def
      cong: option.case_cong if_cong)

lemma book_notify_frame:
  "users d' = users d \<Longrightarrow> book_notify send d' b = book_notify send d b"
  by (simp add: book_notify_def findUser_def cong: option.case_cong if_cong)

lemma withReason_id [simp]: "a_id (withReason reason a) = a_id a"
  by (simp add: withReason_def)

lemma fresh_id_above: "x \<in> set as \<Longrightarrow> a_id x < fresh_id as"
  by (induction as) (auto simp: fresh_id_def)

lemma fresh_id_unused: "findAppointment d (fresh_id (appointments d)) = None"
proof -
  have "a_id x \<noteq> fresh_id (appointments d)" if "x \<in> set (appointments d)" for x
    using fresh_id_above [OF that] by simp
  then show ?thesis
    by (simp add: findAppointment_def find_None_iff)
qed

lemma findActiveOnDate_None:
  "findActiveOnDate d sid day = None \<longleftrightarrow>
     \<not> (\<exists>x \<in> set (appointments d). a_student x = sid \<and> a_date x = day \<and>
           (a_status x = ''pending'' \<or> a_status x = ''accepted''))"
  by (auto simp: findActiveOnDate_def find_None_iff)

lemma findStudent_push [simp]:
  "findStudent (pushStudentAppointment i n d) i =
     map_option (\<lambda>s. s\<lparr>s_appointments := s_appointments s @ [n]\<rparr>) (findStudent d i)"
  by (simp add: findStudent_def pushStudentAppointment_def find_updateOne)

lemma findFaculty_push [simp]:
  "findFaculty (pushFacultyAppointment i n d) i =
     map_option (\<lambda>f. f\<lparr>f_appointments := f_appointments f @ [n]\<rparr>) (findFaculty d i)"
  by (simp add: findFaculty_def pushFacultyAppointment_def find_updateOne)

lemma find_frames [simp]:
  "findStudent (pushFacultyAppointment i n d) j = findStudent d j"
  "findStudent (setBooked k b d) j = findStudent d j"
  "findStudent (d\<lparr>appointments := as\<rparr>) j = findStudent d j"
  "findFaculty (setBooked k b d) j = findFaculty d j"
  "findFaculty (pushStudentAppointment i n d) j = findFaculty d j"
  "findFaculty (d\<lparr>appointments := as\<rparr>) j = findFaculty d j"
  "findAvailability (pushStudentAppointment i n d) j = findAvailability d j"
  "findAvailability (pushFacultyAppointment i n d) j = findAvailability d j"
  "findAvailability (d\<lparr>appointments := as\<rparr>) j = findAvailability d j"
  by (simp_all add: findStudent_def findFaculty_def findAvailability_def)

lemma findAvailability_id: "findAvailability d i = Some v \<Longrightarrow> v_id v = i"
  by (auto simp: findAvailability_def find_Some_iff)

lemma findFaculty_id: "findFaculty d i = Some f \<Longrightarrow> f_id f = i"
  by (auto simp: findFaculty_def find_Some_iff)

subsection \<open>The handlers past their checks\<close>

lemma book_writes_db:
  assumes "validate_new (new_appointment d b purpose)"
  shows "snd (book_writes send d b purpose) =
           pushFacultyAppointment (f_id (b_faculty b)) (fresh_id (appointments d))
             (pushStudentAppointment (s_id (b_student b)) (fresh_id (appointments d))
               (setBooked (v_id (b_availability b)) True
                 (d\<lparr>appointments := appointments d @ [new_appointment d b purpose]\<rparr>)))"
  using assms by (simp add: book_writes_def Let_def new_appointment_def split: option.splits)

lemma book_writes_response:
  assumes "validate_new (new_appointment d b purpose)"
  shows "fst (book_writes send d b purpose) =
           (case book_notify send d b of
              Some e \<Rightarrow> server_error e
            | None \<Rightarrow> respond 201 ''Appointment booked successfully'' (new_appointment d b purpose))"
proof -
  have "book_notify send
          (pushFacultyAppointment (f_id (b_faculty b)) (a_id (new_appointment d b purpose))
             (pushStudentAppointment (s_id (b_student b)) (a_id (new_appointment d b purpose))
               (setBooked (v_id (b_availability b)) True
                 (d\<lparr>appointments := appointments d @ [new_appointment d b purpose]\<rparr>)))) b =
        book_notify send d b"
    by (rule book_notify_frame) simp
  with assms show ?thesis
    by (simp add: book_writes_def Let_def split: option.splits)
qed

lemma updateStatus_accept_run:
  assumes "findFacultyByUser d uid = Some faculty"
    and "findAppointment d appointmentId = Some a"
    and "a_faculty a = f_id faculty"
    and "a_status a = ''pending''"
  shows "updateAppointmentStatus send d uid appointmentId ''accepted'' reason =
           ((case status_notify send d a ''accepted'' of
               Some e \<Rightarrow> server_error e
             | None \<Rightarrow>
                 respond 200 ''Appointment accepted successfully'' (a\<lparr>a_status := ''accepted''\<rparr>)),
            saveAppointment appointmentId (\<lambda>x. x\<lparr>a_status := ''accepted''\<rparr>) d)"
proof -
  have n: "status_notify send (saveAppointment appointmentId (\<lambda>x. x\<lparr>a_status := ''accepted''\<rparr>) d)
             a ''accepted'' = status_notify send d a ''accepted''"
    by (rule status_notify_frame) simp_all
  from assms findAppointment_id [OF assms(2)] n show ?thesis
    by (simp add: updateAppointmentStatus_def Let_def split: option.splits)
qed

lemma updateStatus_reject_run:
  assumes "findFacultyByUser d uid = Some faculty"
    and "findAppointment d appointmentId = Some a"
    and "a_faculty a = f_id faculty"
    and "a_status a = ''pending''"
    and "length reason \<le> 200"
  shows "updateAppointmentStatus send d uid appointmentId ''rejected'' reason =
           ((case status_notify send d a ''rejected'' of
               Some e \<Rightarrow> server_error e
             | None \<Rightarrow>
                 respond 200 ''Appointment rejected successfully''
                   ((withReason reason a)\<lparr>a_status := ''rejected''\<rparr>)),
            releaseSlot (a_availability a)
              (saveAppointment appointmentId (\<lambda>x. (withReason reason x)\<lparr>a_status := ''rejected''\<rparr>) d))"
proof -
  have n: "status_notify send
             (releaseSlot (a_availability a)
                (saveAppointment appointmentId (\<lambda>x. (withReason reason x)\<lparr>a_status := ''rejected''\<rparr>) d))
             a ''rejected'' = status_notify send d a ''rejected''"
    by (rule status_notify_frame) simp_all
  from assms findAppointment_id [OF assms(2)] n show ?thesis
    by (simp add: updateAppointmentStatus_def Let_def validate_reason_def split: option.splits)
qed

lemma cancel_run:
  assumes "findAppointment d appointmentId = Some a"
    and "a_status a \<noteq> ''cancelled''"
    and "a_status a \<noteq> ''rejected''"
    and "cancel_role d uid a = Inr role"
    and "length reason \<le> 200"
  shows "cancelAppointment send d uid appointmentId reason =
           ((case cancel_notify send d a of
               Some e \<Rightarrow> server_error e
             | None \<Rightarrow>
                 respond 200 ''Appointment cancelled successfully''
                   ((withReason reason a)\<lparr>a_status := ''cancelled'', a_cancelledBy := Some role\<rparr>)),
            releaseSlot (a_availability a)
              (saveAppointment appointmentId
                 (\<lambda>x. (withReason reason x)\<lparr>a_status := ''cancelled'', a_cancelledBy := Some role\<rparr>)
                 d))"
proof -
  let ?f = "\<lambda>x. (withReason reason x)\<lparr>a_status := ''cancelled'', a_cancelledBy := Some role\<rparr>"
  have n: "cancel_notify send (releaseSlot (a_availability a) (saveAppointment appointmentId ?f d)) a =
           cancel_notify send d a"
    by (rule cancel_notify_frame) simp_all
  from assms findAppointment_id [OF assms(1)] n show ?thesis
    by (auto simp: cancelAppointment_def Let_def validate_reason_def split: option.splits)
qed

lemma complete_run:
  assumes "findFacultyByUser d uid = Some faculty"
    and "findAppointment d appointmentId = Some a"
    and "a_faculty a = f_id faculty"
    and "a_status a = ''accepted''"
  shows "completeAppointment send d uid appointmentId =
           ((case complete_notify send d a of
               Some e \<Rightarrow> server_error e
             | None \<Rightarrow>
                 respond 200 ''Appointment marked as completed'' (a\<lparr>a_status := ''completed''\<rparr>)),
            releaseSlot (a_availability a)
              (saveAppointment appointmentId (\<lambda>x. x\<lparr>a_status := ''completed''\<rparr>) d))"
proof -
  have n: "complete_notify send
             (releaseSlot (a_availability a)
                (saveAppointment appointmentId (\<lambda>x. x\<lparr>a_status := ''completed''\<rparr>) d)) a =
           complete_notify send d a"
    by (rule complete_notify_frame) simp_all
  from assms findAppointment_id [OF assms(2)] n show ?thesis
    by (auto simp: completeAppointment_def Let_def split: option.splits)
qed

lemma cancel_role_student:
  "findStudentByUser d uid = Some student \<Longrightarrow> a_student a = s_id student \<Longrightarrow>
   cancel_role d uid a = Inr ''student''"
  by (simp add: cancel_role_def)

lemma cancel_role_faculty:
  "findStudentByUser d uid = None \<Longrightarrow> findFacultyByUser d uid = Some faculty \<Longrightarrow>
   a_faculty a = f_id faculty \<Longrightarrow> cancel_role d uid a = Inr ''faculty''"
  by (simp add: cancel_role_def)

subsection \<open>What a failing send can change\<close>

lemma complete_notify_send:
  "complete_notify send d a = complete_notify always d a \<or>
   complete_notify send d a = Some SendError"
  unfolding complete_notify_def always_def
  by (cases "findStudent d (a_student a)"; simp;
      cases "findUser d (s_user (the (findStudent d (a_student a))))"; simp)

lemma status_notify_send:
  "status_notify send d a st = status_notify always d a st \<or>
   status_notify send d a st = Some SendError"
  unfolding status_notify_def always_def
  by (cases "findStudent d (a_student a)"; simp;
      cases "findUser d (s_user (the (findStudent d (a_student a))))"; simp)

lemma book_notify_send:
  "book_notify send d b = book_notify always d b \<or> book_notify send d b = Some SendError"
  unfolding book_notify_def always_def
  by (cases "findUser d (s_user (b_student b))"; simp;
      cases "findUser d (f_user (b_faculty b))"; simp)

lemma cancel_notify_send:
  "cancel_notify send d a = cancel_notify always d a \<or> cancel_notify send d a = Some SendError"
  unfolding cancel_notify_def always_def
  by (cases "findStudent d (a_student a)"; simp;
      cases "findFaculty d (a_faculty a)"; simp;
      cases "findUser d (s_user (the (findStudent d (a_student a))))"; simp;
      cases "findUser d (f_user (the (findFaculty d (a_faculty a))))"; simp)


lemma finish_send:
  assumes "n = n' \<or> n = Some SendError"
    and "x = (case n of Some e \<Rightarrow> server_error e | None \<Rightarrow> r, d)"
    and "y = (case n' of Some e \<Rightarrow> server_error e | None \<Rightarrow> r, d)"
  shows "snd x = snd y \<and> (fst x = fst y \<or> fst x = server_error SendError)"
  using assms by (cases n; cases n'; auto)

lemma complete_send:
  "snd (completeAppointment send d uid appointmentId) =
   snd (completeAppointment always d uid appointmentId) \<and>
   (fst (completeAppointment send d uid appointmentId) =
    fst (completeAppointment always d uid appointmentId) \<or>
    fst (completeAppointment send d uid appointmentId) = server_error SendError)"
proof (cases "\<exists>faculty a. findFacultyByUser d uid = Some faculty \<and>
                findAppointment d appointmentId = Some a \<and>
                a_faculty a = f_id faculty \<and> a_status a = ''accepted''")
  case True
  then obtain faculty a where h: "findFacultyByUser d uid = Some faculty"
    "findAppointment d appointmentId = Some a" "a_faculty a = f_id faculty"
    "a_status a = ''accepted''"
    by blast
  show ?thesis
    by (rule finish_send [OF complete_notify_send complete_run [OF h] complete_run [OF h]])
next
  case False
  then have "completeAppointment send d uid appointmentId =
             completeAppointment always d uid appointmentId"
    by (auto simp: completeAppointment_def split: option.splits)
  then show ?thesis by simp
qed

lemma cancel_send:
  "snd (cancelAppointment send d uid appointmentId reason) =
   snd (cancelAppointment always d uid appointmentId reason) \<and>
   (fst (cancelAppointment send d uid appointmentId reason) =
    fst (cancelAppointment always d uid appointmentId reason) \<or>
    fst (cancelAppointment send d uid appointmentId reason) = server_error SendError)"
proof (cases "\<exists>a role. findAppointment d appointmentId = Some a \<and>
                a_status a \<noteq> ''cancelled'' \<and> a_status a \<noteq> ''rejected'' \<and>
                cancel_role d uid a = Inr role \<and> length reason \<le> 200")
  case True
  then obtain a role where h: "findAppointment d appointmentId = Some a"
    "a_status a \<noteq> ''cancelled''" "a_status a \<noteq> ''rejected''"
    "cancel_role d uid a = Inr role" "length reason \<le> 200"
    by blast
  show ?thesis
    by (rule finish_send [OF cancel_notify_send cancel_run [OF h] cancel_run [OF h]])
next
  case False
  then have "cancelAppointment send d uid appointmentId reason =
             cancelAppointment always d uid appointmentId reason"
    by (auto simp: cancelAppointment_def validate_reason_def split: option.splits sum.splits)
  then show ?thesis by simp
qed


lemma book_run:
  assumes "book_checks d uid facultyId availabilityId date = Inr b"
    and "validate_new (new_appointment d b purpose)"
  shows "bookAppointment send d uid facultyId availabilityId date purpose =
           ((case book_notify send d b of
               Some e \<Rightarrow> server_error e
             | None \<Rightarrow> respond 201 ''Appointment booked successfully'' (new_appointment d b purpose)),
            pushFacultyAppointment (f_id (b_faculty b)) (fresh_id (appointments d))
              (pushStudentAppointment (s_id (b_student b)) (fresh_id (appointments d))
                (setBooked (v_id (b_availability b)) True
                  (d\<lparr>appointments := appointments d @ [new_appointment d b purpose]\<rparr>))))"
  using assms(1) book_writes_response [OF assms(2), of send] book_writes_db [OF assms(2), of send]
  by (simp add: bookAppointment_def prod_eq_iff)

lemma book_send:
  "snd (bookAppointment send d uid facultyId availabilityId date purpose) =
   snd (bookAppointment always d uid facultyId availabilityId date purpose) \<and>
   (fst (bookAppointment send d uid facultyId availabilityId date purpose) =
    fst (bookAppointment always d uid facultyId availabilityId date purpose) \<or>
    fst (bookAppointment send d uid facultyId availabilityId date purpose) =
    server_error SendError)"
proof (cases "\<exists>b. book_checks d uid facultyId availabilityId date = Inr b \<and>
                validate_new (new_appointment d b purpose)")
  case True
  then obtain b where h: "book_checks d uid facultyId availabilityId date = Inr b"
    "validate_new (new_appointment d b purpose)"
    by blast
  show ?thesis
    by (rule finish_send [OF book_notify_send book_run [OF h] book_run [OF h]])
next
  case False
  then have "bookAppointment send d uid facultyId availabilityId date purpose =
             bookAppointment always d uid facultyId availabilityId date purpose"
    by (auto simp: bookAppointment_def book_writes_def Let_def split: sum.splits)
  then show ?thesis by simp
qed

lemma status_send:
  "snd (updateAppointmentStatus send d uid appointmentId status reason) =
   snd (updateAppointmentStatus always d uid appointmentId status reason) \<and>
   (fst (updateAppointmentStatus send d uid appointmentId status reason) =
    fst (updateAppointmentStatus always d uid appointmentId status reason) \<or>
    fst (updateAppointmentStatus send d uid appointmentId status reason) =
    server_error SendError)"
proof (cases "\<exists>faculty a. findFacultyByUser d uid = Some faculty \<and>
                findAppointment d appointmentId = Some a \<and>
                a_faculty a = f_id faculty \<and> a_status a = ''pending''")
  case True
  then obtain faculty a where h: "findFacultyByUser d uid = Some faculty"
    "findAppointment d appointmentId = Some a" "a_faculty a = f_id faculty"
    "a_status a = ''pending''"
    by blast
  show ?thesis
  proof (cases "status = ''accepted''")
    case True
    show ?thesis
      unfolding True
      by (rule finish_send [OF status_notify_send updateStatus_accept_run [OF h]
            updateStatus_accept_run [OF h]])
  next
    case other: False
    show ?thesis
    proof (cases "status = ''rejected'' \<and> length reason \<le> 200")
      case True
      then have st: "status = ''rejected''" and len: "length reason \<le> 200"
        by simp_all
      show ?thesis
        unfolding st
        by (rule finish_send [OF status_notify_send updateStatus_reject_run [OF h len]
              updateStatus_reject_run [OF h len]])
    next
      case False
      with other h have "updateAppointmentStatus send d uid appointmentId status reason =
             updateAppointmentStatus always d uid appointmentId status reason"
        by (auto simp: updateAppointmentStatus_def validate_reason_def)
      then show ?thesis by simp
    qed
  qed
next
  case False
  then have "updateAppointmentStatus send d uid appointmentId status reason =
             updateAppointmentStatus always d uid appointmentId status reason"
    by (auto simp: updateAppointmentStatus_def split: option.splits)
  then show ?thesis by simp
qed

subsection \<open>The round trip, and a cancel after completion\<close>

text \<open>
  Whatever the database: when a booking, the acceptance of the new appointment and its
  completion are each answered with success, the slot is booked after the first step
  and free after the last (\<open>round_trip_frees_slot\<close>). And a completed appointment
  that its student cancels becomes cancelled, with the slot released once more
  (\<open>cancel_completed_general\<close>).
\<close>

lemma book_success:
  assumes "bookAppointment send d uid facultyId availabilityId date purpose = (r, d')"
    and "r_success r"
  shows "\<exists>b. book_checks d uid facultyId availabilityId date = Inr b \<and>
             validate_new (new_appointment d b purpose)"
proof (cases "book_checks d uid facultyId availabilityId date")
  case (Inl x)
  then have "\<not> r_success x"
    by (auto simp: book_checks_def reject_def server_error_def split: option.splits if_splits)
  with assms Inl show ?thesis
    by (simp add: bookAppointment_def)
next
  case (Inr b)
  with assms show ?thesis
    by (auto simp: bookAppointment_def book_writes_def Let_def server_error_def
        split: if_splits)
qed

lemma book_checks_slot:
  assumes "book_checks d uid facultyId availabilityId date = Inr b"
  shows "findAvailability d availabilityId = Some (b_availability b)"
  using assms by (auto simp: book_checks_def split: option.splits if_splits)

lemma status_success:
  assumes "updateAppointmentStatus send d uid appointmentId status reason = (r, d')"
    and "r_success r"
  shows "\<exists>faculty a. findFacultyByUser d uid = Some faculty \<and>
           findAppointment d appointmentId = Some a \<and> a_faculty a = f_id faculty \<and>
           a_status a = ''pending''"
  using assms
  by (auto simp: updateAppointmentStatus_def reject_def server_error_def
      split: option.splits if_splits)

lemma complete_success:
  assumes "completeAppointment send d uid appointmentId = (r, d')"
    and "r_success r"
  shows "\<exists>faculty a. findFacultyByUser d uid = Some faculty \<and>
           findAppointment d appointmentId = Some a \<and> a_faculty a = f_id faculty \<and>
           a_status a = ''accepted''"
  using assms
  by (auto simp: completeAppointment_def reject_def server_error_def
      split: option.splits if_splits)


lemma findAppointment_frames [simp]:
  "findAppointment (setBooked k b d) j = findAppointment d j"
  "findAppointment (pushStudentAppointment i n d) j = findAppointment d j"
  "findAppointment (pushFacultyAppointment i n d) j = findAppointment d j"
  by (simp_all add: findAppointment_def)

lemma find_snoc:
  "find P (xs @ [x]) =
     (case find P xs of None \<Rightarrow> (if P x then Some x else None) | Some y \<Rightarrow> Some y)"
  by (induction xs) auto

lemma findAppointment_created:
  "findAppointment d (a_id x) = None \<Longrightarrow>
   findAppointment (d\<lparr>appointments := appointments d @ [x]\<rparr>) (a_id x) = Some x"
  by (simp add: findAppointment_def find_snoc)

lemma round_trip_frees_slot:
  assumes b: "bookAppointment send d uid facultyId availabilityId date purpose = (r1, d1)"
    and s1: "r_success r1" and a: "r_data r1 = Some a"
    and u: "updateAppointmentStatus send d1 fuid (a_id a) ''accepted'' reason = (r2, d2)"
    and s2: "r_success r2"
    and c: "completeAppointment send d2 fuid (a_id a) = (r3, d3)"
    and s3: "r_success r3"
  shows "map_option v_isBooked (findAvailability d1 availabilityId) = Some True \<and>
         map_option v_isBooked (findAvailability d3 availabilityId) = Some False \<and>
         map_option a_status (findAppointment d3 (a_id a)) = Some ''completed''"
proof -
  from book_success [OF b s1] obtain bk
    where checks: "book_checks d uid facultyId availabilityId date = Inr bk"
      and valid: "validate_new (new_appointment d bk purpose)"
    by blast
  let ?n = "new_appointment d bk purpose"
  from book_checks_slot [OF checks]
  have slot: "findAvailability d availabilityId = Some (b_availability bk)" .
  then have vid: "v_id (b_availability bk) = availabilityId"
    by (rule findAvailability_id)
  from b book_run [OF checks valid, of send]
  have r1: "r1 = (case book_notify send d bk of Some e \<Rightarrow> server_error e
                  | None \<Rightarrow> respond 201 ''Appointment booked successfully'' ?n)"
    and d1: "d1 = pushFacultyAppointment (f_id (b_faculty bk)) (fresh_id (appointments d))
              (pushStudentAppointment (s_id (b_student bk)) (fresh_id (appointments d))
                (setBooked availabilityId True (d\<lparr>appointments := appointments d @ [?n]\<rparr>)))"
    by (simp_all add: vid)
  from r1 s1 a have an: "a = ?n"
    by (auto simp: server_error_def respond_def split: option.splits)
  have fresh: "findAppointment d (a_id ?n) = None"
    by (simp add: new_appointment_def fresh_id_unused)
  have av: "a_availability ?n = availabilityId"
    by (simp add: new_appointment_def vid)
  have v1: "findAvailability d1 availabilityId = Some ((b_availability bk)\<lparr>v_isBooked := True\<rparr>)"
    unfolding d1 using slot by simp
  have a1: "findAppointment d1 (a_id a) = Some a"
    unfolding d1 an using findAppointment_created [OF fresh] by simp
  from status_success [OF u s2] a1 obtain faculty
    where f1: "findFacultyByUser d1 fuid = Some faculty" "a_faculty a = f_id faculty"
      "a_status a = ''pending''"
    by auto
  from u updateStatus_accept_run [OF f1(1) a1 f1(2,3), of send reason]
  have d2: "d2 = saveAppointment (a_id a) (\<lambda>x. x\<lparr>a_status := ''accepted''\<rparr>) d1"
    by simp
  have a2: "findAppointment d2 (a_id a) = Some (a\<lparr>a_status := ''accepted''\<rparr>)"
    unfolding d2 using a1 by simp
  from complete_success [OF c s3] a2 obtain faculty'
    where f2: "findFacultyByUser d2 fuid = Some faculty'"
      "a_faculty (a\<lparr>a_status := ''accepted''\<rparr>) = f_id faculty'"
    by auto
  from c complete_run [OF f2(1) a2 f2(2), of send]
  have d3: "d3 = releaseSlot availabilityId
                   (saveAppointment (a_id a) (\<lambda>x. x\<lparr>a_status := ''completed''\<rparr>) d2)"
    using av by (simp add: an)
  have "findAvailability d3 availabilityId =
          Some ((b_availability bk)\<lparr>v_isBooked := False\<rparr>)"
    unfolding d3 d2 using v1 by simp
  moreover have "findAppointment d3 (a_id a) = Some (a\<lparr>a_status := ''completed''\<rparr>)"
    unfolding d3 using a2 by simp
  ultimately show ?thesis
    using v1 by simp
qed

lemma cancel_completed_general:
  assumes "findAppointment d appointmentId = Some a"
    and "a_status a = ''completed''"
    and "findStudentByUser d uid = Some student"
    and "a_student a = s_id student"
    and "length reason \<le> 200"
  shows "findAppointment (snd (cancelAppointment send d uid appointmentId reason)) appointmentId =
           Some ((withReason reason a)\<lparr>a_status := ''cancelled'', a_cancelledBy := Some ''student''\<rparr>) \<and>
         findAvailability (snd (cancelAppointment send d uid appointmentId reason)) (a_availability a) =
           map_option (\<lambda>v. v\<lparr>v_isBooked := False\<rparr>) (findAvailability d (a_availability a))"
proof -
  from assms(2) have st: "a_status a \<noteq> ''cancelled''" "a_status a \<noteq> ''rejected''"
    by simp_all
  show ?thesis
    unfolding cancel_run [OF assms(1) st cancel_role_student [OF assms(3,4)] assms(5)]
    using assms(1) by simp
qed

subsection \<open>The answer when a send fails\<close>

text \<open>
  When a handler answers with success under sends that all resolve, its checks have
  passed, its writes are made and the users it mails exist; under any other sends the
  answer is then decided by the mails alone.
\<close>

lemma not_success:
  "\<not> r_success (server_error e)" "\<not> r_success (reject c m)" "r_success (respond c m a)"
  by (simp_all add: server_error_def reject_def respond_def)

lemma complete_notify_found:
  assumes "complete_notify always d a = None"
  shows "\<exists>student su. findStudent d (a_student a) = Some student \<and>
           findUser d (s_user student) = Some su"
  using assms unfolding complete_notify_def
  by (cases "findStudent d (a_student a)"; simp;
      cases "findUser d (s_user (the (findStudent d (a_student a))))"; simp)

lemma complete_notify_value:
  "findStudent d (a_student a) = Some student \<Longrightarrow> findUser d (s_user student) = Some su \<Longrightarrow>
   complete_notify send d a =
     (if send (u_email su) ''Appointment Completed'' then None else Some SendError)"
  by (simp add: complete_notify_def)

lemma status_notify_found:
  assumes "status_notify always d a st = None"
  shows "\<exists>student su. findStudent d (a_student a) = Some student \<and>
           findUser d (s_user student) = Some su"
  using assms unfolding status_notify_def
  by (cases "findStudent d (a_student a)"; simp;
      cases "findUser d (s_user (the (findStudent d (a_student a))))"; simp)

lemma status_notify_value:
  "findStudent d (a_student a) = Some student \<Longrightarrow> findUser d (s_user student) = Some su \<Longrightarrow>
   status_notify send d a st =
     (if send (u_email su)
           (if st = ''accepted'' then ''Appointment Accepted'' else ''Appointment Rejected'')
      then None else Some SendError)"
  by (simp add: status_notify_def)

lemma book_notify_found:
  assumes "book_notify always d b = None"
  shows "\<exists>su fu. findUser d (s_user (b_student b)) = Some su \<and>
           findUser d (f_user (b_faculty b)) = Some fu"
  using assms unfolding book_notify_def always_def
  by (cases "findUser d (s_user (b_student b))"; simp;
      cases "findUser d (f_user (b_faculty b))"; simp)

lemma book_notify_value:
  "findUser d (s_user (b_student b)) = Some su \<Longrightarrow>
   findUser d (f_user (b_faculty b)) = Some fu \<Longrightarrow>
   book_notify send d b =
     (if send (u_email su) ''Appointment Request Submitted'' \<and>
         send (u_email fu) ''New Appointment Request''
      then None else Some SendError)"
  by (simp add: book_notify_def)

lemma cancel_notify_found:
  assumes "cancel_notify always d a = None"
  shows "\<exists>student faculty su fu. findStudent d (a_student a) = Some student \<and>
           findFaculty d (a_faculty a) = Some faculty \<and>
           findUser d (s_user student) = Some su \<and>
           findUser d (f_user faculty) = Some fu"
  using assms unfolding cancel_notify_def always_def
  by (cases "findStudent d (a_student a)"; simp;
      cases "findFaculty d (a_faculty a)"; simp;
      cases "findUser d (s_user (the (findStudent d (a_student a))))"; simp;
      cases "findUser d (f_user (the (findFaculty d (a_faculty a))))"; simp)

lemma cancel_notify_value:
  "findStudent d (a_student a) = Some student \<Longrightarrow>
   findFaculty d (a_faculty a) = Some faculty \<Longrightarrow>
   findUser d (s_user student) = Some su \<Longrightarrow>
   findUser d (f_user faculty) = Some fu \<Longrightarrow>
   cancel_notify send d a =
     (if send (u_email su) ''Appointment Cancelled'' \<and>
         send (u_email fu) ''Appointment Cancelled''
      then None else Some SendError)"
  by (simp add: cancel_notify_def)

lemma finish_exact:
  assumes "x = (case n of Some e \<Rightarrow> server_error e | None \<Rightarrow> r, d)"
    and "y = (case n' of Some e \<Rightarrow> server_error e | None \<Rightarrow> r, d)"
    and "r_success (fst y)"
    and "n = (if ok then None else Some SendError)"
  shows "fst x = (if ok then fst y else server_error SendError)"
  using assms by (cases n'; simp add: not_success)

lemma finish_none:
  assumes "y = (case n' of Some e \<Rightarrow> server_error e | None \<Rightarrow> r, d)"
    and "r_success (fst y)"
  shows "n' = None"
  using assms by (cases n'; simp add: not_success)


lemma book_checks_docs:
  assumes "book_checks d uid facultyId availabilityId date = Inr b"
  shows "findStudentByUser d uid = Some (b_student b) \<and> findFaculty d facultyId = Some (b_faculty b)"
  using assms by (auto simp: book_checks_def split: option.splits if_splits)

lemma status_success_arg:
  assumes "r_success (fst (updateAppointmentStatus send d uid appointmentId status reason))"
  shows "status = ''accepted'' \<or> status = ''rejected'' \<and> length reason \<le> 200"
proof (rule ccontr)
  assume n: "\<not> (status = ''accepted'' \<or> status = ''rejected'' \<and> length reason \<le> 200)"
  show False
  proof (cases "status = ''rejected''")
    case True
    with n have "reason \<noteq> []" "\<not> validate_reason reason"
      by (auto simp: validate_reason_def)
    with assms show False
      unfolding True
      by (simp add: updateAppointmentStatus_def Let_def not_success split: option.splits if_splits)
  next
    case False
    with n assms show False
      by (simp add: updateAppointmentStatus_def not_success)
  qed
qed

lemma cancel_success:
  assumes "r_success (fst (cancelAppointment send d uid appointmentId reason))"
  shows "\<exists>a role. findAppointment d appointmentId = Some a \<and>
           a_status a \<noteq> ''cancelled'' \<and> a_status a \<noteq> ''rejected'' \<and>
           cancel_role d uid a = Inr role \<and> length reason \<le> 200"
proof (cases "findAppointment d appointmentId")
  case None
  with assms show ?thesis by (simp add: cancelAppointment_def not_success)
next
  case (Some a)
  show ?thesis
  proof (cases "cancel_role d uid a")
    case (Inl r)
    then have "\<not> r_success r"
      by (auto simp: cancel_role_def not_success split: option.splits if_splits)
    with assms Some Inl show ?thesis
      by (simp add: cancelAppointment_def not_success split: if_splits)
  next
    case (Inr role)
    with assms Some show ?thesis
      by (cases "reason = []")
         (auto simp: cancelAppointment_def Let_def validate_reason_def not_success
            split: if_splits)
  qed
qed

lemma complete_send_exact:
  assumes ok: "r_success (fst (completeAppointment always d uid appointmentId))"
  shows "\<exists>a student su. findAppointment d appointmentId = Some a \<and>
           findStudent d (a_student a) = Some student \<and>
           findUser d (s_user student) = Some su \<and>
           fst (completeAppointment send d uid appointmentId) =
             (if send (u_email su) ''Appointment Completed''
              then fst (completeAppointment always d uid appointmentId)
              else server_error SendError)"
proof -
  from complete_success [OF prod.collapse [symmetric] ok] obtain faculty a
    where h: "findFacultyByUser d uid = Some faculty" "findAppointment d appointmentId = Some a"
      "a_faculty a = f_id faculty" "a_status a = ''accepted''"
    by blast
  note run = complete_run [OF h]
  from complete_notify_found [OF finish_none [OF run [of always] ok]] obtain student su
    where l: "findStudent d (a_student a) = Some student" "findUser d (s_user student) = Some su"
    by blast
  from finish_exact [OF run [of send] run [of always] ok complete_notify_value [OF l]] h(2) l
  show ?thesis by blast
qed

lemma cancel_send_exact:
  assumes ok: "r_success (fst (cancelAppointment always d uid appointmentId reason))"
  shows "\<exists>a student faculty su fu. findAppointment d appointmentId = Some a \<and>
           findStudent d (a_student a) = Some student \<and>
           findFaculty d (a_faculty a) = Some faculty \<and>
           findUser d (s_user student) = Some su \<and>
           findUser d (f_user faculty) = Some fu \<and>
           fst (cancelAppointment send d uid appointmentId reason) =
             (if send (u_email su) ''Appointment Cancelled'' \<and>
                 send (u_email fu) ''Appointment Cancelled''
              then fst (cancelAppointment always d uid appointmentId reason)
              else server_error SendError)"
proof -
  from cancel_success [OF ok] obtain a role
    where h: "findAppointment d appointmentId = Some a"
      "a_status a \<noteq> ''cancelled''" "a_status a \<noteq> ''rejected''"
      "cancel_role d uid a = Inr role" "length reason \<le> 200"
    by blast
  note run = cancel_run [OF h]
  from cancel_notify_found [OF finish_none [OF run [of always] ok]] obtain student faculty su fu
    where l: "findStudent d (a_student a) = Some student"
      "findFaculty d (a_faculty a) = Some faculty"
      "findUser d (s_user student) = Some su" "findUser d (f_user faculty) = Some fu"
    by blast
  from finish_exact [OF run [of send] run [of always] ok cancel_notify_value [OF l]] h(1) l
  show ?thesis by blast
qed

lemma book_send_exact:
  assumes ok: "r_success (fst (bookAppointment always d uid facultyId availabilityId date purpose))"
  shows "\<exists>student faculty su fu. findStudentByUser d uid = Some student \<and>
           findFaculty d facultyId = Some faculty \<and>
           findUser d (s_user student) = Some su \<and>
           findUser d (f_user faculty) = Some fu \<and>
           fst (bookAppointment send d uid facultyId availabilityId date purpose) =
             (if send (u_email su) ''Appointment Request Submitted'' \<and>
                 send (u_email fu) ''New Appointment Request''
              then fst (bookAppointment always d uid facultyId availabilityId date purpose)
              else server_error SendError)"
proof -
  from book_success [OF prod.collapse [symmetric] ok] obtain b
    where h: "book_checks d uid facultyId availabilityId date = Inr b"
      "validate_new (new_appointment d b purpose)"
    by blast
  note run = book_run [OF h]
  from book_notify_found [OF finish_none [OF run [of always] ok]] obtain su fu
    where l: "findUser d (s_user (b_student b)) = Some su"
      "findUser d (f_user (b_faculty b)) = Some fu"
    by blast
  from finish_exact [OF run [of send] run [of always] ok book_notify_value [OF l]]
    book_checks_docs [OF h(1)] l
  show ?thesis by blast
qed

lemma status_send_exact:
  assumes ok: "r_success (fst (updateAppointmentStatus always d uid appointmentId status reason))"
  shows "\<exists>a student su. findAppointment d appointmentId = Some a \<and>
           findStudent d (a_student a) = Some student \<and>
           findUser d (s_user student) = Some su \<and>
           fst (updateAppointmentStatus send d uid appointmentId status reason) =
             (if send (u_email su)
                   (if status = ''accepted'' then ''Appointment Accepted''
                    else ''Appointment Rejected'')
              then fst (updateAppointmentStatus always d uid appointmentId status reason)
              else server_error SendError)"
proof -
  from status_success [OF prod.collapse [symmetric] ok] obtain faculty a
    where h: "findFacultyByUser d uid = Some faculty" "findAppointment d appointmentId = Some a"
      "a_faculty a = f_id faculty" "a_status a = ''pending''"
    by blast
  from status_success_arg [OF ok] show ?thesis
  proof
    assume st: "status = ''accepted''"
    note run = updateStatus_accept_run [OF h]
    from ok have ok': "r_success (fst (updateAppointmentStatus always d uid appointmentId
                         ''accepted'' reason))"
      by (simp add: st)
    from status_notify_found [OF finish_none [OF run [of always] ok']] obtain student su
      where l: "findStudent d (a_student a) = Some student"
        "findUser d (s_user student) = Some su"
      by blast
    from finish_exact [OF run [of send] run [of always] ok' status_notify_value [OF l]] h(2) l
    show ?thesis unfolding st by blast
  next
    assume "status = ''rejected'' \<and> length reason \<le> 200"
    then have st: "status = ''rejected''" and len: "length reason \<le> 200"
      by simp_all
    note run = updateStatus_reject_run [OF h len]
    from ok have ok': "r_success (fst (updateAppointmentStatus always d uid appointmentId
                         ''rejected'' reason))"
      by (simp add: st)
    from status_notify_found [OF finish_none [OF run [of always] ok']] obtain student su
      where l: "findStudent d (a_student a) = Some student"
        "findUser d (s_user student) = Some su"
      by blast
    from finish_exact [OF run [of send] run [of always] ok' status_notify_value [OF l]] h(2) l
    show ?thesis unfolding st by blast
  qed
qed

lemma send_full:
  assumes "snd x = snd y \<and> (fst x = fst y \<or> fst x = server_error SendError)"
    and "r_success (fst y) \<Longrightarrow> Q"
  shows "snd x = snd y \<and> (fst x = fst y \<or> fst x = server_error SendError) \<and>
         (r_success (fst x) \<longrightarrow> r_success (fst y)) \<and> (r_success (fst y) \<longrightarrow> Q)"
  using assms by (auto simp: not_success)

subsection \<open>The small campus, step by step\<close>

lemmas model_defs =
  bookAppointment_def book_checks_def book_writes_def book_notify_def new_appointment_def
  updateAppointmentStatus_def status_notify_def cancelAppointment_def cancel_role_def
  cancel_notify_def completeAppointment_def complete_notify_def
  findUser_def findStudentByUser_def findStudent_def findFacultyByUser_def findFaculty_def
  findAvailability_def findAppointment_def findActiveOnDate_def
  setBooked_def pushStudentAppointment_def pushFacultyAppointment_def saveAppointment_def
  releaseSlot_def fresh_id_def validate_new_def validate_reason_def withReason_def
  valid_time_def is_digit_def reject_def respond_def server_error_def Let_def

lemmas campus_defs =
  campus_def campus_at_def campus_with_def campus_gone_def ann_appointment_def
  bob_appointment_def ann_booking_def bob_booking_def always_def never_def

lemma step_book:
  "bookAppointment always campus 1 21 31 (Some 100) ''thesis'' =
     (respond 201 ''Appointment booked successfully'' (ann_appointment ''pending'' None),
      campus_with ''pending'' True)"
  by (simp add: model_defs campus_defs)

lemma step_accept:
  "updateAppointmentStatus always (campus_with ''pending'' True) 3 1 ''accepted'' [] =
     (respond 200 ''Appointment accepted successfully'' (ann_appointment ''accepted'' None),
      campus_with ''accepted'' True)"
  by (simp add: model_defs campus_defs)

lemma step_complete:
  "completeAppointment always (campus_with ''accepted'' True) 3 1 =
     (respond 200 ''Appointment marked as completed'' (ann_appointment ''completed'' None),
      campus_with ''completed'' False)"
  by (simp add: model_defs campus_defs)

lemma step_rebook:
  "bookAppointment always (campus_with ''completed'' False) 2 21 31 (Some 100) ''exam'' =
     (respond 201 ''Appointment booked successfully'' (bob_appointment ''pending''),
      campus_at [1] [2] [1, 2] True [ann_appointment ''completed'' None, bob_appointment ''pending''])"
  by (simp add: model_defs campus_defs)

lemma step_cancel_completed:
  "cancelAppointment always
     (campus_at [1] [2] [1, 2] True [ann_appointment ''completed'' None, bob_appointment ''pending''])
     1 1 [] =
     (respond 200 ''Appointment cancelled successfully''
        (ann_appointment ''cancelled'' (Some ''student'')),
      campus_at [1] [2] [1, 2] False
        [ann_appointment ''cancelled'' (Some ''student''), bob_appointment ''pending''])"
  by (simp add: model_defs campus_defs)

lemma step_cancel_pending:
  "cancelAppointment always (campus_with ''pending'' True) 1 1 ''ill'' =
     (respond 200 ''Appointment cancelled successfully''
        ((ann_appointment ''cancelled'' (Some ''student''))\<lparr>a_cancelReason := Some ''ill''\<rparr>),
      campus_at [1] [] [1] False
        [(ann_appointment ''cancelled'' (Some ''student''))\<lparr>a_cancelReason := Some ''ill''\<rparr>])"
  by (simp add: model_defs campus_defs)

lemma step_cancel_accepted:
  "cancelAppointment always (campus_with ''accepted'' True) 3 1 [] =
     (respond 200 ''Appointment cancelled successfully''
        (ann_appointment ''cancelled'' (Some ''faculty'')),
      campus_at [1] [] [1] False [ann_appointment ''cancelled'' (Some ''faculty'')])"
  by (simp add: model_defs campus_defs)

lemma step_cancel_rejected:
  "cancelAppointment always (campus_with ''rejected'' False) 1 1 [] =
     (reject 400 ''Cannot cancel a rejected appointment'', campus_with ''rejected'' False)"
  by (simp add: model_defs campus_defs)

lemma step_book_never:
  "bookAppointment never campus 1 21 31 (Some 100) ''thesis'' =
     (server_error SendError, campus_with ''pending'' True)"
  by (simp add: model_defs campus_defs)

lemma step_status_completed:
  "updateAppointmentStatus always (campus_with ''completed'' False) 3 1 ''rejected'' [] =
     (reject 400 ''Appointment is already completed'', campus_with ''completed'' False)"
  by (simp add: model_defs campus_defs)

lemma step_complete_completed:
  "completeAppointment always (campus_with ''completed'' False) 3 1 =
     (reject 400
        ''Appointment must be accepted before it can be completed. Current status: completed'',
      campus_with ''completed'' False)"
  by (simp add: model_defs campus_defs)

lemma step_cancel_done:
  "cancelAppointment always (campus_with ''completed'' False) 1 1 [] =
     (respond 200 ''Appointment cancelled successfully''
        (ann_appointment ''cancelled'' (Some ''student'')),
      campus_at [1] [] [1] False [ann_appointment ''cancelled'' (Some ''student'')])"
  by (simp add: model_defs campus_defs)

lemma step_checks_ann: "book_checks campus 1 21 31 (Some 100) = Inr ann_booking"
  by (simp add: model_defs campus_defs)

lemma step_checks_bob: "book_checks campus 2 21 31 (Some 100) = Inr bob_booking"
  by (simp add: model_defs campus_defs)

lemma step_writes_ann:
  "book_writes always campus ann_booking ''thesis'' =
     (respond 201 ''Appointment booked successfully'' (ann_appointment ''pending'' None),
      campus_with ''pending'' True)"
  by (simp add: model_defs campus_defs)

lemma step_writes_bob:
  "book_writes always (campus_with ''pending'' True) bob_booking ''exam'' =
     (respond 201 ''Appointment booked successfully'' (bob_appointment ''pending''),
      campus_at [1] [2] [1, 2] True [ann_appointment ''pending'' None, bob_appointment ''pending''])"
  by (simp add: model_defs campus_defs)

lemma step_book_taken:
  "bookAppointment always (campus_with ''pending'' True) 2 21 31 (Some 100) ''exam'' =
     (reject 400 ''Availability slot is already booked'', campus_with ''pending'' True)"
  by (simp add: model_defs campus_defs)

text \<open>The documents of the small campus.\<close>

lemma campus_with_appointment:
  "findAppointment (campus_with st booked) 1 = Some (ann_appointment st None)"
  by (simp add: findAppointment_def campus_with_def campus_at_def ann_appointment_def)

lemma campus_with_faculty:
  "findFacultyByUser (campus_with st booked) 3 =
     Some \<lparr>f_id = 21, f_user = 3, f_name = ''Rao'', f_appointments = [1]\<rparr>"
  by (simp add: findFacultyByUser_def campus_with_def campus_at_def)

lemma ann_appointment_sel [simp]:
  "a_id (ann_appointment st who) = 1"
  "a_student (ann_appointment st who) = 11"
  "a_faculty (ann_appointment st who) = 21"
  "a_availability (ann_appointment st who) = 31"
  "a_status (ann_appointment st who) = st"
  by (simp_all add: ann_appointment_def)

lemma campus_gone_facts:
  "findAppointment (campus_gone st) 1 = Some (ann_appointment st None)"
  "findAvailability (campus_gone st) 31 = None"
  "findFacultyByUser (campus_gone st) 3 =
     Some \<lparr>f_id = 21, f_user = 3, f_name = ''Rao'', f_appointments = [1]\<rparr>"
  "findStudentByUser (campus_gone st) 1 =
     Some \<lparr>s_id = 11, s_user = 1, s_name = ''Ann'', s_appointments = [1]\<rparr>"
  "status_notify always (campus_gone st) (ann_appointment st None) ''rejected'' = None"
  "cancel_notify always (campus_gone st) (ann_appointment st None) = None"
  "complete_notify always (campus_gone st) (ann_appointment st None) = None"
  by (simp_all add: campus_defs findAppointment_def findAvailability_def findFacultyByUser_def
        findStudentByUser_def status_notify_def cancel_notify_def complete_notify_def
        findStudent_def findFaculty_def findUser_def)

lemma campus_booking_facts:
  "findStudentByUser (campus_at ann bob rao booked as) 1 =
     Some \<lparr>s_id = 11, s_user = 1, s_name = ''Ann'', s_appointments = ann\<rparr>"
  "findStudentByUser (campus_at ann bob rao booked as) 2 =
     Some \<lparr>s_id = 12, s_user = 2, s_name = ''Bob'', s_appointments = bob\<rparr>"
  "findFaculty (campus_at ann bob rao booked as) 21 =
     Some \<lparr>f_id = 21, f_user = 3, f_name = ''Rao'', f_appointments = rao\<rparr>"
  "findFaculty (campus_at ann bob rao booked as) 22 =
     Some \<lparr>f_id = 22, f_user = 4, f_name = ''Sen'', f_appointments = []\<rparr>"
  "findAvailability (campus_at ann bob rao booked as) 31 =
     Some \<lparr>v_id = 31, v_faculty = 21, v_startTime = ''09:00'', v_endTime = ''10:00'',
           v_isActive = True, v_isBooked = booked\<rparr>"
  "findAvailability (campus_at ann bob rao booked as) 32 =
     Some \<lparr>v_id = 32, v_faculty = 21, v_startTime = ''10:00'', v_endTime = ''11:00'',
           v_isActive = False, v_isBooked = False\<rparr>"
  "findAvailability (campus_at ann bob rao booked as) 33 =
     Some \<lparr>v_id = 33, v_faculty = 22, v_startTime = ''14:00'', v_endTime = ''15:00'',
           v_isActive = True, v_isBooked = False\<rparr>"
  "findAvailability (campus_at ann bob rao booked as) 99 = None"
  by (simp_all add: campus_at_def findStudentByUser_def findFaculty_def findAvailability_def)

section \<open>The claims\<close>

text \<open>
  C1. The invariant ``a slot has \<open>isBooked = true\<close> exactly when a pending or accepted
  appointment refers to it'' is not kept by the handlers. Ann books slot 31, Rao
  accepts and completes (the slot is free again, as the round trip of the claim says),
  Bob books the same slot, and Ann cancels her completed appointment:
  \<^verbatim>\<open>cancelAppointment\<close> refuses only the statuses cancelled and rejected, so it goes
  through and clears \<open>isBooked\<close> of slot 31 while Bob's pending appointment refers to it.
\<close>

theorem cancelled_completed_unbooks_rebooked_slot:
  "(let d1 = snd (bookAppointment always campus 1 21 31 (Some 100) ''thesis'');
        d2 = snd (updateAppointmentStatus always d1 3 1 ''accepted'' []);
        d3 = snd (completeAppointment always d2 3 1);
        d4 = snd (bookAppointment always d3 2 21 31 (Some 100) ''exam'');
        d5 = snd (cancelAppointment always d4 1 1 [])
    in map_option v_isBooked (findAvailability d3 31) = Some False \<and>
       map_option v_isBooked (findAvailability d4 31) = Some True \<and>
       findAppointment d4 2 = Some (bob_appointment ''pending'') \<and>
       map_option v_isBooked (findAvailability d5 31) = Some False \<and>
       findAppointment d5 2 = Some (bob_appointment ''pending'') \<and>
       a_availability (bob_appointment ''pending'') = 31 \<and>
       a_status (bob_appointment ''pending'') = ''pending'')"
  unfolding Let_def step_book snd_conv step_accept step_complete step_rebook step_cancel_completed
  by (simp add: campus_defs findAvailability_def findAppointment_def)

text \<open>
  C2. A handler gives up control at every \<^verbatim>\<open>await\<close>, so the reads of one request
  (lines 103--169, \<open>book_checks\<close>) can all be served before the writes of another
  (lines 171--192, \<open>book_writes\<close>) arrive. In the schedule where Ann's and Bob's
  requests for slot 31 both read the campus first and then write one after the other,
  both pass the \<open>isBooked\<close> check, both are answered 201, and two pending appointments
  refer to slot 31. Only when Bob's request starts after Ann's has finished is it
  refused with 400.
\<close>

theorem interleaved_bookings_both_created:
  "book_checks campus 1 21 31 (Some 100) = Inr ann_booking \<and>
   book_checks campus 2 21 31 (Some 100) = Inr bob_booking \<and>
   book_writes always campus ann_booking ''thesis'' =
     (respond 201 ''Appointment booked successfully'' (ann_appointment ''pending'' None),
      campus_with ''pending'' True) \<and>
   book_writes always (campus_with ''pending'' True) bob_booking ''exam'' =
     (respond 201 ''Appointment booked successfully'' (bob_appointment ''pending''),
      campus_at [1] [2] [1, 2] True
        [ann_appointment ''pending'' None, bob_appointment ''pending'']) \<and>
   a_availability (ann_appointment ''pending'' None) = 31 \<and>
   a_availability (bob_appointment ''pending'') = 31 \<and>
   bookAppointment always (campus_with ''pending'' True) 2 21 31 (Some 100) ''exam'' =
     (reject 400 ''Availability slot is already booked'', campus_with ''pending'' True)"
  using step_checks_ann step_checks_bob step_writes_ann step_writes_bob step_book_taken
  by (simp add: bob_appointment_def)

text \<open>
  C3. A completed appointment is not terminal for \<^verbatim>\<open>cancelAppointment\<close>: its two status
  checks (lines 515--529) name cancelled and rejected only. On Ann's completed
  appointment the sibling handlers refuse with 400, but her cancel request is answered
  200 and the stored status becomes cancelled.
\<close>

theorem completed_appointment_is_cancelled:
  "findAppointment (campus_with ''completed'' False) 1 = Some (ann_appointment ''completed'' None) \<and>
   a_status (ann_appointment ''completed'' None) = ''completed'' \<and>
   updateAppointmentStatus always (campus_with ''completed'' False) 3 1 ''rejected'' [] =
     (reject 400 ''Appointment is already completed'', campus_with ''completed'' False) \<and>
   completeAppointment always (campus_with ''completed'' False) 3 1 =
     (reject 400
        ''Appointment must be accepted before it can be completed. Current status: completed'',
      campus_with ''completed'' False) \<and>
   cancelAppointment always (campus_with ''completed'' False) 1 1 [] =
     (respond 200 ''Appointment cancelled successfully''
        (ann_appointment ''cancelled'' (Some ''student'')),
      campus_at [1] [] [1] False [ann_appointment ''cancelled'' (Some ''student'')]) \<and>
   a_status (ann_appointment ''cancelled'' (Some ''student'')) = ''cancelled''"
  using campus_with_appointment [of "''completed''" False] step_status_completed
    step_complete_completed step_cancel_done
  by simp

text \<open>
  C4. \<^verbatim>\<open>bookAppointment\<close>, for a caller with a student document and an existing
  faculty member: the checks come in a fixed order and the first that fails decides
  the answer -- the slot exists (404), belongs to the faculty member, is active, is not
  booked, and the student has no pending or accepted appointment with the same \<open>date\<close>
  (400 each; the last check looks at student, date and status only, never at the
  times). When all pass and the new document is valid for the schema (a purpose of 1
  to 200 characters, times of the form HH:MM), one appointment is appended: pending,
  with a new id, the slot's start and end time; the slot gets \<open>isBooked = true\<close>; the
  id is appended to the student's and to the faculty member's list; and the answer is
  201 with the appointment when both mails go out.
\<close>

theorem book_checks_in_order:
  assumes "findStudentByUser d uid = Some student"
    and "findFaculty d facultyId = Some faculty"
    and "bookAppointment send d uid facultyId availabilityId date purpose = (r, d')"
  shows
   "(findAvailability d availabilityId = None \<longrightarrow>
       r = reject 404 ''Availability slot not found'' \<and> d' = d) \<and>
    (\<forall>availability. findAvailability d availabilityId = Some availability \<longrightarrow>
       (v_faculty availability \<noteq> facultyId \<longrightarrow>
          r = reject 400 ''Availability slot does not belong to this faculty'' \<and> d' = d) \<and>
       (v_faculty availability = facultyId \<and> \<not> v_isActive availability \<longrightarrow>
          r = reject 400 ''Availability slot is not active'' \<and> d' = d) \<and>
       (v_faculty availability = facultyId \<and> v_isActive availability \<and>
        v_isBooked availability \<longrightarrow>
          r = reject 400 ''Availability slot is already booked'' \<and> d' = d) \<and>
       (\<forall>day. v_faculty availability = facultyId \<and> v_isActive availability \<and>
              \<not> v_isBooked availability \<and> date = Some day \<longrightarrow>
          ((\<exists>x \<in> set (appointments d). a_student x = s_id student \<and> a_date x = day \<and>
               (a_status x = ''pending'' \<or> a_status x = ''accepted'')) \<longrightarrow>
             r = reject 400 ''You already have an appointment at this time'' \<and> d' = d) \<and>
          (\<not> (\<exists>x \<in> set (appointments d). a_student x = s_id student \<and> a_date x = day \<and>
               (a_status x = ''pending'' \<or> a_status x = ''accepted'')) \<and>
           purpose \<noteq> [] \<and> length purpose \<le> 200 \<and>
           valid_time (v_startTime availability) \<and> valid_time (v_endTime availability) \<longrightarrow>
             (\<exists>a. appointments d' = appointments d @ [a] \<and>
                  findAppointment d (a_id a) = None \<and>
                  a_status a = ''pending'' \<and>
                  a_startTime a = v_startTime availability \<and>
                  a_endTime a = v_endTime availability \<and>
                  a_student a = s_id student \<and> a_faculty a = facultyId \<and>
                  a_availability a = availabilityId \<and> a_date a = day \<and>
                  a_purpose a = purpose \<and>
                  findAvailability d' availabilityId = Some (availability\<lparr>v_isBooked := True\<rparr>) \<and>
                  findStudent d' (s_id student) =
                    map_option (\<lambda>s. s\<lparr>s_appointments := s_appointments s @ [a_id a]\<rparr>)
                      (findStudent d (s_id student)) \<and>
                  findFaculty d' facultyId =
                    Some (faculty\<lparr>f_appointments := f_appointments faculty @ [a_id a]\<rparr>) \<and>
                  ((\<exists>su fu. findUser d (s_user student) = Some su \<and>
                       findUser d (f_user faculty) = Some fu \<and>
                       send (u_email su) ''Appointment Request Submitted'' \<and>
                       send (u_email fu) ''New Appointment Request'') \<longrightarrow>
                     r = respond 201 ''Appointment booked successfully'' a)))))"
proof (intro conjI impI allI)
  assume "findAvailability d availabilityId = None"
  with assms show "r = reject 404 ''Availability slot not found''" and "d' = d"
    by (auto simp: bookAppointment_def book_checks_def)
next
  fix availability
  assume v: "findAvailability d availabilityId = Some availability"
  {
    assume "v_faculty availability \<noteq> facultyId"
    with assms v show "r = reject 400 ''Availability slot does not belong to this faculty''"
      and "d' = d"
      by (auto simp: bookAppointment_def book_checks_def)
  next
    assume "v_faculty availability = facultyId \<and> \<not> v_isActive availability"
    with assms v show "r = reject 400 ''Availability slot is not active''" and "d' = d"
      by (auto simp: bookAppointment_def book_checks_def)
  next
    assume "v_faculty availability = facultyId \<and> v_isActive availability \<and>
            v_isBooked availability"
    with assms v show "r = reject 400 ''Availability slot is already booked''" and "d' = d"
      by (auto simp: bookAppointment_def book_checks_def)
  }
  fix day
  assume ok: "v_faculty availability = facultyId \<and> v_isActive availability \<and>
              \<not> v_isBooked availability \<and> date = Some day"
  {
    assume "\<exists>x \<in> set (appointments d). a_student x = s_id student \<and> a_date x = day \<and>
               (a_status x = ''pending'' \<or> a_status x = ''accepted'')"
    then have "findActiveOnDate d (s_id student) day \<noteq> None"
      by (simp add: findActiveOnDate_None)
    with assms v ok show "r = reject 400 ''You already have an appointment at this time''"
      and "d' = d"
      by (auto simp: bookAppointment_def book_checks_def)
  }
  let ?b = "\<lparr>b_student = student, b_faculty = faculty, b_availability = availability,
             b_date = day\<rparr>"
  let ?a = "new_appointment d ?b purpose"
  assume h: "\<not> (\<exists>x \<in> set (appointments d). a_student x = s_id student \<and> a_date x = day \<and>
               (a_status x = ''pending'' \<or> a_status x = ''accepted'')) \<and>
           purpose \<noteq> [] \<and> length purpose \<le> 200 \<and>
           valid_time (v_startTime availability) \<and> valid_time (v_endTime availability)"
  then have "findActiveOnDate d (s_id student) day = None"
    by (simp add: findActiveOnDate_None)
  with assms v ok have checks: "book_checks d uid facultyId availabilityId date = Inr ?b"
    by (simp add: book_checks_def)
  from h have valid: "validate_new ?a"
    by (simp add: validate_new_def new_appointment_def)
  from assms(3) checks have run: "book_writes send d ?b purpose = (r, d')"
    by (simp add: bookAppointment_def)
  have ids: "v_id availability = availabilityId" "f_id faculty = facultyId"
    using v assms(2) by (simp_all add: findAvailability_id findFaculty_id)
  from run book_writes_db [OF valid, of send] have d': "d' =
      pushFacultyAppointment facultyId (a_id ?a)
        (pushStudentAppointment (s_id student) (a_id ?a)
          (setBooked availabilityId True (d\<lparr>appointments := appointments d @ [?a]\<rparr>)))"
    by (simp add: ids new_appointment_def)
  from run book_writes_response [OF valid, of send]
  have r: "r = (case book_notify send d ?b of Some e \<Rightarrow> server_error e
                | None \<Rightarrow> respond 201 ''Appointment booked successfully'' ?a)"
    by simp
  have "appointments d' = appointments d @ [?a]"
    unfolding d' by simp
  moreover have "findAppointment d (a_id ?a) = None"
    by (simp add: new_appointment_def fresh_id_unused)
  moreover have "findAvailability d' availabilityId = Some (availability\<lparr>v_isBooked := True\<rparr>)"
    unfolding d' using v by simp
  moreover have "findStudent d' (s_id student) =
      map_option (\<lambda>s. s\<lparr>s_appointments := s_appointments s @ [a_id ?a]\<rparr>)
        (findStudent d (s_id student))"
    unfolding d' by simp
  moreover have "findFaculty d' facultyId =
      Some (faculty\<lparr>f_appointments := f_appointments faculty @ [a_id ?a]\<rparr>)"
    unfolding d' using assms(2) by simp
  moreover have "(\<exists>su fu. findUser d (s_user student) = Some su \<and>
                       findUser d (f_user faculty) = Some fu \<and>
                       send (u_email su) ''Appointment Request Submitted'' \<and>
                       send (u_email fu) ''New Appointment Request'') \<longrightarrow>
                     r = respond 201 ''Appointment booked successfully'' ?a"
    unfolding r by (auto simp: book_notify_def)
  ultimately show "\<exists>a. appointments d' = appointments d @ [a] \<and>
                  findAppointment d (a_id a) = None \<and>
                  a_status a = ''pending'' \<and>
                  a_startTime a = v_startTime availability \<and>
                  a_endTime a = v_endTime availability \<and>
                  a_student a = s_id student \<and> a_faculty a = facultyId \<and>
                  a_availability a = availabilityId \<and> a_date a = day \<and>
                  a_purpose a = purpose \<and>
                  findAvailability d' availabilityId = Some (availability\<lparr>v_isBooked := True\<rparr>) \<and>
                  findStudent d' (s_id student) =
                    map_option (\<lambda>s. s\<lparr>s_appointments := s_appointments s @ [a_id a]\<rparr>)
                      (findStudent d (s_id student)) \<and>
                  findFaculty d' facultyId =
                    Some (faculty\<lparr>f_appointments := f_appointments faculty @ [a_id a]\<rparr>) \<and>
                  ((\<exists>su fu. findUser d (s_user student) = Some su \<and>
                       findUser d (f_user faculty) = Some fu \<and>
                       send (u_email su) ''Appointment Request Submitted'' \<and>
                       send (u_email fu) ''New Appointment Request'') \<longrightarrow>
                     r = respond 201 ''Appointment booked successfully'' a)"
    by (intro exI [of _ ?a]) (simp add: new_appointment_def ids)
qed

theorem book_checks_in_order_witness:
  "bookAppointment always campus 1 21 99 (Some 100) ''thesis'' =
     (reject 404 ''Availability slot not found'', campus) \<and>
   bookAppointment always campus 1 21 33 (Some 100) ''thesis'' =
     (reject 400 ''Availability slot does not belong to this faculty'', campus) \<and>
   bookAppointment always campus 1 21 32 (Some 100) ''thesis'' =
     (reject 400 ''Availability slot is not active'', campus) \<and>
   bookAppointment always (campus_with ''pending'' True) 2 21 31 (Some 100) ''exam'' =
     (reject 400 ''Availability slot is already booked'', campus_with ''pending'' True) \<and>
   bookAppointment always (campus_with ''pending'' True) 1 22 33 (Some 100) ''thesis'' =
     (reject 400 ''You already have an appointment at this time'', campus_with ''pending'' True) \<and>
   bookAppointment always campus 1 21 31 (Some 100) ''thesis'' =
     (respond 201 ''Appointment booked successfully'' (ann_appointment ''pending'' None),
      campus_with ''pending'' True) \<and>
   appointments (campus_with ''pending'' True) = appointments campus @ [ann_appointment ''pending'' None] \<and>
   map_option v_isBooked (findAvailability (campus_with ''pending'' True) 31) = Some True \<and>
   map_option s_appointments (findStudent (campus_with ''pending'' True) 11) = Some [1] \<and>
   map_option f_appointments (findFaculty (campus_with ''pending'' True) 21) = Some [1]"
proof -
  let ?p = "campus_with ''pending'' True"
  let ?ann0 = "\<lparr>s_id = 11, s_user = 1, s_name = ''Ann'', s_appointments = []\<rparr>"
  let ?ann1 = "\<lparr>s_id = 11, s_user = 1, s_name = ''Ann'', s_appointments = [1]\<rparr>"
  let ?bob0 = "\<lparr>s_id = 12, s_user = 2, s_name = ''Bob'', s_appointments = []\<rparr>"
  let ?rao0 = "\<lparr>f_id = 21, f_user = 3, f_name = ''Rao'', f_appointments = []\<rparr>"
  let ?rao1 = "\<lparr>f_id = 21, f_user = 3, f_name = ''Rao'', f_appointments = [1]\<rparr>"
  let ?sen = "\<lparr>f_id = 22, f_user = 4, f_name = ''Sen'', f_appointments = []\<rparr>"
  note f = campus_booking_facts
  have sA: "findStudentByUser campus 1 = Some ?ann0"
    and fR: "findFaculty campus 21 = Some ?rao0"
    unfolding campus_def by (rule f)+
  have sA': "findStudentByUser ?p 1 = Some ?ann1"
    and sB': "findStudentByUser ?p 2 = Some ?bob0"
    and fR': "findFaculty ?p 21 = Some ?rao1"
    and fS': "findFaculty ?p 22 = Some ?sen"
    unfolding campus_with_def by (rule f)+
  have v: "findAvailability campus 99 = None"
    "findAvailability campus 33 =
       Some \<lparr>v_id = 33, v_faculty = 22, v_startTime = ''14:00'', v_endTime = ''15:00'',
             v_isActive = True, v_isBooked = False\<rparr>"
    "findAvailability campus 32 =
       Some \<lparr>v_id = 32, v_faculty = 21, v_startTime = ''10:00'', v_endTime = ''11:00'',
             v_isActive = False, v_isBooked = False\<rparr>"
    "findAvailability campus 31 =
       Some \<lparr>v_id = 31, v_faculty = 21, v_startTime = ''09:00'', v_endTime = ''10:00'',
             v_isActive = True, v_isBooked = False\<rparr>"
    unfolding campus_def by (rule f)+
  have v': "findAvailability ?p 31 =
       Some \<lparr>v_id = 31, v_faculty = 21, v_startTime = ''09:00'', v_endTime = ''10:00'',
             v_isActive = True, v_isBooked = True\<rparr>"
    "findAvailability ?p 33 =
       Some \<lparr>v_id = 33, v_faculty = 22, v_startTime = ''14:00'', v_endTime = ''15:00'',
             v_isActive = True, v_isBooked = False\<rparr>"
    unfolding campus_with_def by (rule f)+
  have ap: "appointments campus = []" "appointments ?p = [ann_appointment ''pending'' None]"
    by (simp_all add: campus_def campus_with_def campus_at_def)
  have 1: "bookAppointment always campus 1 21 99 (Some 100) ''thesis'' =
             (reject 404 ''Availability slot not found'', campus)"
    using book_checks_in_order [OF sA fR prod.collapse [symmetric], where send = always
            and availabilityId = 99 and date = "Some 100" and purpose = "''thesis''"] v
    by (simp add: prod_eq_iff)
  have 2: "bookAppointment always campus 1 21 33 (Some 100) ''thesis'' =
             (reject 400 ''Availability slot does not belong to this faculty'', campus)"
    using book_checks_in_order [OF sA fR prod.collapse [symmetric], where send = always
            and availabilityId = 33 and date = "Some 100" and purpose = "''thesis''"] v
    by (simp add: prod_eq_iff)
  have 3: "bookAppointment always campus 1 21 32 (Some 100) ''thesis'' =
             (reject 400 ''Availability slot is not active'', campus)"
    using book_checks_in_order [OF sA fR prod.collapse [symmetric], where send = always
            and availabilityId = 32 and date = "Some 100" and purpose = "''thesis''"] v
    by (simp add: prod_eq_iff)
  have 4: "bookAppointment always ?p 2 21 31 (Some 100) ''exam'' =
             (reject 400 ''Availability slot is already booked'', ?p)"
    using book_checks_in_order [OF sB' fR' prod.collapse [symmetric], where send = always
            and availabilityId = 31 and date = "Some 100" and purpose = "''exam''"] v'
    by (simp add: prod_eq_iff)
  have 5: "bookAppointment always ?p 1 22 33 (Some 100) ''thesis'' =
             (reject 400 ''You already have an appointment at this time'', ?p)"
    using book_checks_in_order [OF sA' fS' prod.collapse [symmetric], where send = always
            and availabilityId = 33 and date = "Some 100" and purpose = "''thesis''"] v' ap
    by (simp add: prod_eq_iff ann_appointment_def)
  have 6: "appointments ?p = appointments campus @ [ann_appointment ''pending'' None] \<and>
           map_option v_isBooked (findAvailability ?p 31) = Some True \<and>
           map_option s_appointments (findStudent ?p 11) = Some [1] \<and>
           map_option f_appointments (findFaculty ?p 21) = Some [1]"
    using book_checks_in_order [OF sA fR step_book] v ap
    by (auto simp: valid_time_def is_digit_def findStudent_def campus_def campus_at_def)
  from 1 2 3 4 5 6 step_book show ?thesis
    by simp
qed

text \<open>
  C5. \<^verbatim>\<open>updateAppointmentStatus\<close> with an allowed status argument, called by the
  faculty member the appointment belongs to, on an appointment that is not pending:
  the answer is 400 with the message \<^verbatim>\<open>Appointment is already <status>\<close>, and the
  database (appointment and slot included) is returned unchanged.
\<close>

theorem updateStatus_not_pending:
  assumes "status = ''accepted'' \<or> status = ''rejected''"
    and "findFacultyByUser d uid = Some faculty"
    and "findAppointment d appointmentId = Some a"
    and "a_faculty a = f_id faculty"
    and "a_status a \<noteq> ''pending''"
  shows "updateAppointmentStatus send d uid appointmentId status reason =
           (reject 400 (''Appointment is already '' @ a_status a), d)"
  using assms by (auto simp: updateAppointmentStatus_def)

theorem updateStatus_not_pending_witness:
  "findFacultyByUser (campus_with ''accepted'' True) 3 =
     Some \<lparr>f_id = 21, f_user = 3, f_name = ''Rao'', f_appointments = [1]\<rparr> \<and>
   findAppointment (campus_with ''accepted'' True) 1 = Some (ann_appointment ''accepted'' None) \<and>
   updateAppointmentStatus always (campus_with ''accepted'' True) 3 1 ''rejected'' ''late'' =
     (reject 400 ''Appointment is already accepted'', campus_with ''accepted'' True)"
proof -
  have f: "findFacultyByUser (campus_with ''accepted'' True) 3 =
             Some \<lparr>f_id = 21, f_user = 3, f_name = ''Rao'', f_appointments = [1]\<rparr>"
    and a: "findAppointment (campus_with ''accepted'' True) 1 =
             Some (ann_appointment ''accepted'' None)"
    by (rule campus_with_faculty, rule campus_with_appointment)
  show ?thesis
    using f a updateStatus_not_pending [OF _ f a, of "''rejected''" always "''late''"]
    by simp
qed

text \<open>
  C6. \<^verbatim>\<open>cancelAppointment\<close> on a rejected appointment answers 400 and changes nothing,
  whoever calls. On a pending or accepted appointment, called by the student it belongs
  to (a student document carries the caller's user id: role \<open>student\<close>) or, when the
  caller has no student document, by the faculty member it belongs to (role
  \<open>faculty\<close>), with a reason of at most 200 characters (the schema's bound): the stored
  appointment gets status \<open>cancelled\<close>, \<open>cancelledBy\<close> the role and the reason when one
  was given, the slot, if it is still stored, gets \<open>isBooked = false\<close>, and the answer
  is 200 when the two mails of lines 576--604 go out.
\<close>

theorem cancel_rejected_fails_active_succeeds:
  assumes "findAppointment d appointmentId = Some a"
    and "cancelAppointment send d uid appointmentId reason = (r, d')"
  shows "(a_status a = ''rejected'' \<longrightarrow>
            r = reject 400 ''Cannot cancel a rejected appointment'' \<and> d' = d) \<and>
         (\<forall>role.
            (a_status a = ''pending'' \<or> a_status a = ''accepted'') \<and>
            ((\<exists>student. findStudentByUser d uid = Some student \<and>
                 a_student a = s_id student \<and> role = ''student'') \<or>
             (findStudentByUser d uid = None \<and>
              (\<exists>faculty. findFacultyByUser d uid = Some faculty \<and>
                 a_faculty a = f_id faculty \<and> role = ''faculty''))) \<and>
            length reason \<le> 200 \<longrightarrow>
            findAppointment d' appointmentId =
              Some ((withReason reason a)\<lparr>a_status := ''cancelled'', a_cancelledBy := Some role\<rparr>) \<and>
            findAvailability d' (a_availability a) =
              map_option (\<lambda>v. v\<lparr>v_isBooked := False\<rparr>) (findAvailability d (a_availability a)) \<and>
            (cancel_notify send d a = None \<longrightarrow>
               r = respond 200 ''Appointment cancelled successfully''
                     ((withReason reason a)\<lparr>a_status := ''cancelled'', a_cancelledBy := Some role\<rparr>)))"
proof (intro conjI impI allI)
  assume "a_status a = ''rejected''"
  with assms show "r = reject 400 ''Cannot cancel a rejected appointment''" and "d' = d"
    by (auto simp: cancelAppointment_def)
next
  fix role
  let ?f = "\<lambda>x. (withReason reason x)\<lparr>a_status := ''cancelled'', a_cancelledBy := Some role\<rparr>"
  assume h: "(a_status a = ''pending'' \<or> a_status a = ''accepted'') \<and>
            ((\<exists>student. findStudentByUser d uid = Some student \<and>
                 a_student a = s_id student \<and> role = ''student'') \<or>
             (findStudentByUser d uid = None \<and>
              (\<exists>faculty. findFacultyByUser d uid = Some faculty \<and>
                 a_faculty a = f_id faculty \<and> role = ''faculty''))) \<and>
            length reason \<le> 200"
  then have role: "cancel_role d uid a = Inr role"
    by (auto simp: cancel_role_student cancel_role_faculty)
  from h have st: "a_status a \<noteq> ''cancelled''" "a_status a \<noteq> ''rejected''" and len: "length reason \<le> 200"
    by auto
  from cancel_run [OF assms(1) st role len, of send] assms(2)
  have r: "r = (case cancel_notify send d a of Some e \<Rightarrow> server_error e
                | None \<Rightarrow> respond 200 ''Appointment cancelled successfully'' (?f a))"
    and d': "d' = releaseSlot (a_availability a) (saveAppointment appointmentId ?f d)"
    by simp_all
  show "findAppointment d' appointmentId = Some (?f a)"
    unfolding d' using assms(1) by simp
  show "findAvailability d' (a_availability a) =
          map_option (\<lambda>v. v\<lparr>v_isBooked := False\<rparr>) (findAvailability d (a_availability a))"
    unfolding d' by simp
  assume "cancel_notify send d a = None"
  with r show "r = respond 200 ''Appointment cancelled successfully'' (?f a)"
    by simp
qed

theorem cancel_rejected_fails_active_succeeds_witness:
  "cancelAppointment always (campus_with ''rejected'' False) 1 1 [] =
     (reject 400 ''Cannot cancel a rejected appointment'', campus_with ''rejected'' False) \<and>
   findStudentByUser (campus_with ''pending'' True) 1 =
     Some \<lparr>s_id = 11, s_user = 1, s_name = ''Ann'', s_appointments = [1]\<rparr> \<and>
   findAppointment (snd (cancelAppointment always (campus_with ''pending'' True) 1 1 ''ill'')) 1 =
     Some ((ann_appointment ''cancelled'' (Some ''student''))\<lparr>a_cancelReason := Some ''ill''\<rparr>) \<and>
   map_option v_isBooked
     (findAvailability (snd (cancelAppointment always (campus_with ''pending'' True) 1 1 ''ill'')) 31) =
     Some False \<and>
   r_status (fst (cancelAppointment always (campus_with ''pending'' True) 1 1 ''ill'')) = 200 \<and>
   findStudentByUser (campus_with ''accepted'' True) 3 = None \<and>
   findAppointment (snd (cancelAppointment always (campus_with ''accepted'' True) 3 1 [])) 1 =
     Some (ann_appointment ''cancelled'' (Some ''faculty''))"
proof -
  let ?p = "campus_with ''pending'' True" and ?q = "campus_with ''accepted'' True"
  have s: "findStudentByUser ?p 1 =
             Some \<lparr>s_id = 11, s_user = 1, s_name = ''Ann'', s_appointments = [1]\<rparr>"
    and n: "findStudentByUser ?q 3 = None"
    and v: "findAvailability ?p 31 \<noteq> None"
    and m: "cancel_notify always ?p (ann_appointment ''pending'' None) = None"
    by (simp_all add: campus_defs findStudentByUser_def findAvailability_def cancel_notify_def
          findStudent_def findFaculty_def findUser_def)
  note p = cancel_rejected_fails_active_succeeds
             [OF campus_with_appointment [of "''pending''" True] prod.collapse [symmetric],
               where send = always and uid = 1 and reason = "''ill''"]
  note q = cancel_rejected_fails_active_succeeds
             [OF campus_with_appointment [of "''accepted''" True] prod.collapse [symmetric],
               where send = always and uid = 3 and reason = "[]"]
  from p [THEN conjunct2, THEN spec, of "''student''"] s v m
  have 1: "findAppointment (snd (cancelAppointment always ?p 1 1 ''ill'')) 1 =
             Some ((ann_appointment ''cancelled'' (Some ''student''))\<lparr>a_cancelReason := Some ''ill''\<rparr>) \<and>
           map_option v_isBooked
             (findAvailability (snd (cancelAppointment always ?p 1 1 ''ill'')) 31) = Some False \<and>
           r_status (fst (cancelAppointment always ?p 1 1 ''ill'')) = 200"
    by (auto simp: withReason_def ann_appointment_def respond_def)
  from q [THEN conjunct2, THEN spec, of "''faculty''"] n campus_with_faculty [of "''accepted''" True]
  have 2: "findAppointment (snd (cancelAppointment always ?q 3 1 [])) 1 =
             Some (ann_appointment ''cancelled'' (Some ''faculty''))"
    by (auto simp: withReason_def ann_appointment_def)
  from 1 2 s n step_cancel_rejected show ?thesis
    by simp
qed

text \<open>
  C7. \<^verbatim>\<open>completeAppointment\<close> answers with success only when the caller is the faculty
  member of the appointment and its status is accepted; then the stored appointment
  has status completed and the slot, if it is still stored, has \<open>isBooked = false\<close>.
  Called by the owner on any other status it answers 400 with a message that ends in
  the current status, and changes nothing.
\<close>

theorem complete_only_accepted:
  assumes "completeAppointment send d uid appointmentId = (r, d')"
  shows "(r_success r \<longrightarrow>
           (\<exists>faculty a. findFacultyByUser d uid = Some faculty \<and>
              findAppointment d appointmentId = Some a \<and>
              a_faculty a = f_id faculty \<and> a_status a = ''accepted'' \<and>
              r = respond 200 ''Appointment marked as completed'' (a\<lparr>a_status := ''completed''\<rparr>) \<and>
              findAppointment d' appointmentId = Some (a\<lparr>a_status := ''completed''\<rparr>) \<and>
              findAvailability d' (a_availability a) =
                map_option (\<lambda>v. v\<lparr>v_isBooked := False\<rparr>) (findAvailability d (a_availability a)))) \<and>
         (\<forall>faculty a. findFacultyByUser d uid = Some faculty \<and>
              findAppointment d appointmentId = Some a \<and>
              a_faculty a = f_id faculty \<and> a_status a \<noteq> ''accepted'' \<longrightarrow>
              r = reject 400
                    (''Appointment must be accepted before it can be completed. Current status: '' @
                     a_status a) \<and> d' = d)"
  using assms
  by (auto simp: completeAppointment_def Let_def reject_def server_error_def respond_def
        findAppointment_id
      split: option.splits if_splits)

theorem complete_only_accepted_witness:
  "completeAppointment always (campus_with ''accepted'' True) 3 1 =
     (respond 200 ''Appointment marked as completed'' (ann_appointment ''completed'' None),
      campus_with ''completed'' False) \<and>
   r_success (respond 200 ''Appointment marked as completed'' (ann_appointment ''completed'' None)) \<and>
   findAppointment (campus_with ''completed'' False) 1 = Some (ann_appointment ''completed'' None) \<and>
   map_option v_isBooked (findAvailability (campus_with ''completed'' False) 31) = Some False \<and>
   findAppointment (campus_with ''pending'' True) 1 = Some (ann_appointment ''pending'' None) \<and>
   completeAppointment always (campus_with ''pending'' True) 3 1 =
     (reject 400
        ''Appointment must be accepted before it can be completed. Current status: pending'',
      campus_with ''pending'' True)"
proof -
  let ?p = "campus_with ''pending'' True"
  have f: "findFacultyByUser ?p 3 =
             Some \<lparr>f_id = 21, f_user = 3, f_name = ''Rao'', f_appointments = [1]\<rparr>"
    and a: "findAppointment ?p 1 = Some (ann_appointment ''pending'' None)"
    by (rule campus_with_faculty, rule campus_with_appointment)
  from complete_only_accepted [OF step_complete]
  obtain a' where
    fa: "findAppointment (campus_with ''accepted'' True) 1 = Some a'"
    and r1: "findAppointment (campus_with ''completed'' False) 1 =
               Some (a'\<lparr>a_status := ''completed''\<rparr>)"
    and r2: "findAvailability (campus_with ''completed'' False) (a_availability a') =
               map_option (\<lambda>v. v\<lparr>v_isBooked := False\<rparr>)
                 (findAvailability (campus_with ''accepted'' True) (a_availability a'))"
    by (auto simp: respond_def)
  from fa campus_with_appointment [of "''accepted''" True]
  have a': "a' = ann_appointment ''accepted'' None"
    by simp
  have "findAvailability (campus_with ''accepted'' True) 31 \<noteq> None"
    by (simp add: campus_defs findAvailability_def)
  with r1 r2 have fin: "findAppointment (campus_with ''completed'' False) 1 =
                Some (ann_appointment ''completed'' None) \<and>
              map_option v_isBooked (findAvailability (campus_with ''completed'' False) 31) =
                Some False"
    unfolding a' by (auto simp: ann_appointment_def)
  from complete_only_accepted [OF prod.collapse [symmetric], of always ?p 3 1] f a
  have "fst (completeAppointment always ?p 3 1) =
          reject 400
            ''Appointment must be accepted before it can be completed. Current status: pending'' \<and>
        snd (completeAppointment always ?p 3 1) = ?p"
    by simp
  then have "completeAppointment always ?p 3 1 =
     (reject 400
        ''Appointment must be accepted before it can be completed. Current status: pending'', ?p)"
    by (simp add: prod_eq_iff)
  with fin a step_complete show ?thesis
    by (simp add: respond_def)
qed

text \<open>
  C8, as the code has it. The handlers await \<^verbatim>\<open>sendAppointmentEmail\<close> inside their
  \<^verbatim>\<open>try\<close> block, after the writes, and their one \<^verbatim>\<open>catch\<close> block answers 500.
  For each of the four handlers and every behaviour \<open>send\<close> of the sends:
  \<^item> the database it leaves is the one it leaves when every send resolves (a send that
    throws undoes nothing);
  \<^item> its response is the one given when every send resolves, or \<^verbatim>\<open>Server error\<close>;
  \<^item> it answers with success only if it does so when every send resolves;
  \<^item> and when it answers with success under resolving sends (so its writes are made),
    then under \<open>send\<close> it gives that same answer if the mails it sends all resolve, and
    the 500 \<^verbatim>\<open>Server error\<close> as soon as one of them throws.
  The mails are: to the student and to the faculty member for a booking and for a
  cancellation, to the student for an acceptance, a rejection and a completion.
\<close>

theorem send_failure_keeps_write_answers_500:
  "(snd (bookAppointment send d uid facultyId availabilityId date purpose) =
    snd (bookAppointment always d uid facultyId availabilityId date purpose) \<and>
    (fst (bookAppointment send d uid facultyId availabilityId date purpose) =
     fst (bookAppointment always d uid facultyId availabilityId date purpose) \<or>
     fst (bookAppointment send d uid facultyId availabilityId date purpose) =
     server_error SendError) \<and>
    (r_success (fst (bookAppointment send d uid facultyId availabilityId date purpose)) \<longrightarrow>
     r_success (fst (bookAppointment always d uid facultyId availabilityId date purpose))) \<and>
    (r_success (fst (bookAppointment always d uid facultyId availabilityId date purpose)) \<longrightarrow>
     (\<exists>student faculty su fu.
        findStudentByUser d uid = Some student \<and>
        findFaculty d facultyId = Some faculty \<and>
        findUser d (s_user student) = Some su \<and>
        findUser d (f_user faculty) = Some fu \<and>
        fst (bookAppointment send d uid facultyId availabilityId date purpose) =
          (if send (u_email su) ''Appointment Request Submitted'' \<and>
              send (u_email fu) ''New Appointment Request''
           then fst (bookAppointment always d uid facultyId availabilityId date purpose)
           else server_error SendError)))) \<and>
   (snd (updateAppointmentStatus send d uid appointmentId status reason) =
    snd (updateAppointmentStatus always d uid appointmentId status reason) \<and>
    (fst (updateAppointmentStatus send d uid appointmentId status reason) =
     fst (updateAppointmentStatus always d uid appointmentId status reason) \<or>
     fst (updateAppointmentStatus send d uid appointmentId status reason) =
     server_error SendError) \<and>
    (r_success (fst (updateAppointmentStatus send d uid appointmentId status reason)) \<longrightarrow>
     r_success (fst (updateAppointmentStatus always d uid appointmentId status reason))) \<and>
    (r_success (fst (updateAppointmentStatus always d uid appointmentId status reason)) \<longrightarrow>
     (\<exists>a student su.
        findAppointment d appointmentId = Some a \<and>
        findStudent d (a_student a) = Some student \<and>
        findUser d (s_user student) = Some su \<and>
        fst (updateAppointmentStatus send d uid appointmentId status reason) =
          (if send (u_email su)
                (if status = ''accepted'' then ''Appointment Accepted''
                 else ''Appointment Rejected'')
           then fst (updateAppointmentStatus always d uid appointmentId status reason)
           else server_error SendError)))) \<and>
   (snd (cancelAppointment send d uid appointmentId reason) =
    snd (cancelAppointment always d uid appointmentId reason) \<and>
    (fst (cancelAppointment send d uid appointmentId reason) =
     fst (cancelAppointment always d uid appointmentId reason) \<or>
     fst (cancelAppointment send d uid appointmentId reason) = server_error SendError) \<and>
    (r_success (fst (cancelAppointment send d uid appointmentId reason)) \<longrightarrow>
     r_success (fst (cancelAppointment always d uid appointmentId reason))) \<and>
    (r_success (fst (cancelAppointment always d uid appointmentId reason)) \<longrightarrow>
     (\<exists>a student faculty su fu.
        findAppointment d appointmentId = Some a \<and>
        findStudent d (a_student a) = Some student \<and>
        findFaculty d (a_faculty a) = Some faculty \<and>
        findUser d (s_user student) = Some su \<and>
        findUser d (f_user faculty) = Some fu \<and>
        fst (cancelAppointment send d uid appointmentId reason) =
          (if send (u_email su) ''Appointment Cancelled'' \<and>
              send (u_email fu) ''Appointment Cancelled''
           then fst (cancelAppointment always d uid appointmentId reason)
           else server_error SendError)))) \<and>
   (snd (completeAppointment send d uid appointmentId) =
    snd (completeAppointment always d uid appointmentId) \<and>
    (fst (completeAppointment send d uid appointmentId) =
     fst (completeAppointment always d uid appointmentId) \<or>
     fst (completeAppointment send d uid appointmentId) = server_error SendError) \<and>
    (r_success (fst (completeAppointment send d uid appointmentId)) \<longrightarrow>
     r_success (fst (completeAppointment always d uid appointmentId))) \<and>
    (r_success (fst (completeAppointment always d uid appointmentId)) \<longrightarrow>
     (\<exists>a student su.
        findAppointment d appointmentId = Some a \<and>
        findStudent d (a_student a) = Some student \<and>
        findUser d (s_user student) = Some su \<and>
        fst (completeAppointment send d uid appointmentId) =
          (if send (u_email su) ''Appointment Completed''
           then fst (completeAppointment always d uid appointmentId)
           else server_error SendError))))"
  by (rule conjI [OF send_full [OF book_send book_send_exact]
        conjI [OF send_full [OF status_send status_send_exact]
          conjI [OF send_full [OF cancel_send cancel_send_exact]
            send_full [OF complete_send complete_send_exact]]]])

text \<open>
  With sends that always throw, on the small campus: the booking, the acceptance, the
  cancellation and the completion are each written and each answered 500.
\<close>

theorem send_failure_keeps_write_answers_500_witness:
  "r_success (fst (bookAppointment always campus 1 21 31 (Some 100) ''thesis'')) \<and>
   bookAppointment never campus 1 21 31 (Some 100) ''thesis'' =
     (server_error SendError, campus_with ''pending'' True) \<and>
   r_success (fst (updateAppointmentStatus always (campus_with ''pending'' True) 3 1 ''accepted'' [])) \<and>
   updateAppointmentStatus never (campus_with ''pending'' True) 3 1 ''accepted'' [] =
     (server_error SendError, campus_with ''accepted'' True) \<and>
   r_success (fst (cancelAppointment always (campus_with ''accepted'' True) 3 1 [])) \<and>
   cancelAppointment never (campus_with ''accepted'' True) 3 1 [] =
     (server_error SendError,
      campus_at [1] [] [1] False [ann_appointment ''cancelled'' (Some ''faculty'')]) \<and>
   r_success (fst (completeAppointment always (campus_with ''accepted'' True) 3 1)) \<and>
   completeAppointment never (campus_with ''accepted'' True) 3 1 =
     (server_error SendError, campus_with ''completed'' False) \<and>
   r_status (server_error SendError) = 500 \<and>
   r_message (server_error SendError) = ''Server error'' \<and>
   \<not> r_success (server_error SendError)"
proof -
  note t = send_failure_keeps_write_answers_500 [where send = never]
  have b: "bookAppointment never campus 1 21 31 (Some 100) ''thesis'' =
             (server_error SendError, campus_with ''pending'' True)"
    using t [where d = campus and uid = 1 and facultyId = 21 and availabilityId = 31
               and date = "Some 100" and purpose = "''thesis''", THEN conjunct1] step_book
    by (auto simp: never_def prod_eq_iff not_success)
  have u: "updateAppointmentStatus never (campus_with ''pending'' True) 3 1 ''accepted'' [] =
             (server_error SendError, campus_with ''accepted'' True)"
    using t [where d = "campus_with ''pending'' True" and uid = 3 and appointmentId = 1
               and status = "''accepted''" and reason = "[]",
             THEN conjunct2, THEN conjunct1] step_accept
    by (auto simp: never_def prod_eq_iff not_success)
  have c: "cancelAppointment never (campus_with ''accepted'' True) 3 1 [] =
             (server_error SendError,
              campus_at [1] [] [1] False [ann_appointment ''cancelled'' (Some ''faculty'')])"
    using t [where d = "campus_with ''accepted'' True" and uid = 3 and appointmentId = 1
               and reason = "[]",
             THEN conjunct2, THEN conjunct2, THEN conjunct1] step_cancel_accepted
    by (auto simp: never_def prod_eq_iff not_success)
  have k: "completeAppointment never (campus_with ''accepted'' True) 3 1 =
             (server_error SendError, campus_with ''completed'' False)"
    using t [where d = "campus_with ''accepted'' True" and uid = 3 and appointmentId = 1,
             THEN conjunct2, THEN conjunct2, THEN conjunct2] step_complete
    by (auto simp: never_def prod_eq_iff not_success)
  from b u c k step_book step_accept step_cancel_accepted step_complete show ?thesis
    by (simp add: server_error_def respond_def)
qed

text \<open>
  C8, as stated, fails: when the sends throw, Ann's booking of slot 31 is written (the
  appointment is stored) and the request is answered 500 with \<open>success = false\<close>,
  where it is answered 201 when the sends resolve.
\<close>

theorem send_failure_fails_booking:
  "bookAppointment always campus 1 21 31 (Some 100) ''thesis'' =
     (respond 201 ''Appointment booked successfully'' (ann_appointment ''pending'' None),
      campus_with ''pending'' True) \<and>
   bookAppointment never campus 1 21 31 (Some 100) ''thesis'' =
     (server_error SendError, campus_with ''pending'' True) \<and>
   r_status (server_error SendError) = 500 \<and>
   \<not> r_success (server_error SendError) \<and>
   appointments campus = [] \<and>
   appointments (campus_with ''pending'' True) = [ann_appointment ''pending'' None]"
  using step_book step_book_never
  by (simp add: server_error_def campus_def campus_with_def campus_at_def)

text \<open>
  C9. When the slot an appointment refers to is no longer stored, rejecting it
  (\<^verbatim>\<open>updateAppointmentStatus\<close> with \<open>rejected\<close>), cancelling it and completing it still go
  through, under the conditions each handler checks: the stored appointment gets its
  new status, no slot is written (the release is skipped), and the answer is never
  404; it is the success response when the mails go out.
\<close>

theorem missing_slot_release_skipped:
  assumes "findAppointment d appointmentId = Some a"
    and "findAvailability d (a_availability a) = None"
  shows
   "(\<forall>faculty r d'.
       findFacultyByUser d uid = Some faculty \<and> a_faculty a = f_id faculty \<and>
       a_status a = ''pending'' \<and> length reason \<le> 200 \<and>
       updateAppointmentStatus send d uid appointmentId ''rejected'' reason = (r, d') \<longrightarrow>
         findAppointment d' appointmentId = Some ((withReason reason a)\<lparr>a_status := ''rejected''\<rparr>) \<and>
         availabilities d' = availabilities d \<and> r_status r \<noteq> 404 \<and>
         (status_notify send d a ''rejected'' = None \<longrightarrow>
            r = respond 200 ''Appointment rejected successfully''
                  ((withReason reason a)\<lparr>a_status := ''rejected''\<rparr>))) \<and>
    (\<forall>role r d'.
       (a_status a = ''pending'' \<or> a_status a = ''accepted'') \<and>
       ((\<exists>student. findStudentByUser d uid = Some student \<and>
            a_student a = s_id student \<and> role = ''student'') \<or>
        (findStudentByUser d uid = None \<and>
         (\<exists>faculty. findFacultyByUser d uid = Some faculty \<and>
            a_faculty a = f_id faculty \<and> role = ''faculty''))) \<and>
       length reason \<le> 200 \<and>
       cancelAppointment send d uid appointmentId reason = (r, d') \<longrightarrow>
         findAppointment d' appointmentId =
           Some ((withReason reason a)\<lparr>a_status := ''cancelled'', a_cancelledBy := Some role\<rparr>) \<and>
         availabilities d' = availabilities d \<and> r_status r \<noteq> 404 \<and>
         (cancel_notify send d a = None \<longrightarrow>
            r = respond 200 ''Appointment cancelled successfully''
                  ((withReason reason a)\<lparr>a_status := ''cancelled'', a_cancelledBy := Some role\<rparr>))) \<and>
    (\<forall>faculty r d'.
       findFacultyByUser d uid = Some faculty \<and> a_faculty a = f_id faculty \<and>
       a_status a = ''accepted'' \<and>
       completeAppointment send d uid appointmentId = (r, d') \<longrightarrow>
         findAppointment d' appointmentId = Some (a\<lparr>a_status := ''completed''\<rparr>) \<and>
         availabilities d' = availabilities d \<and> r_status r \<noteq> 404 \<and>
         (complete_notify send d a = None \<longrightarrow>
            r = respond 200 ''Appointment marked as completed'' (a\<lparr>a_status := ''completed''\<rparr>)))"
proof -
  have skip: "releaseSlot (a_availability a) (saveAppointment appointmentId f d) =
              saveAppointment appointmentId f d" for f
    using assms(2) by (simp add: releaseSlot_missing)
  have code: "r_status (case n of Some e \<Rightarrow> server_error e | None \<Rightarrow> respond 200 m x) \<noteq> 404"
    for n m x
    by (simp add: server_error_def respond_def split: option.splits)
  show ?thesis
  proof (intro conjI allI impI)
    fix faculty r d'
    assume h: "findFacultyByUser d uid = Some faculty \<and> a_faculty a = f_id faculty \<and>
       a_status a = ''pending'' \<and> length reason \<le> 200 \<and>
       updateAppointmentStatus send d uid appointmentId ''rejected'' reason = (r, d')"
    with updateStatus_reject_run [OF _ assms(1), of uid faculty reason send]
    have r: "r = (case status_notify send d a ''rejected'' of Some e \<Rightarrow> server_error e
                  | None \<Rightarrow> respond 200 ''Appointment rejected successfully''
                             ((withReason reason a)\<lparr>a_status := ''rejected''\<rparr>))"
      and d': "d' = saveAppointment appointmentId
                      (\<lambda>x. (withReason reason x)\<lparr>a_status := ''rejected''\<rparr>) d"
      by (simp_all add: skip)
    show "findAppointment d' appointmentId = Some ((withReason reason a)\<lparr>a_status := ''rejected''\<rparr>)"
      unfolding d' using assms(1) by simp
    show "availabilities d' = availabilities d"
      unfolding d' by simp
    show "r_status r \<noteq> 404"
      unfolding r by (rule code)
    assume "status_notify send d a ''rejected'' = None"
    with r show "r = respond 200 ''Appointment rejected successfully''
                       ((withReason reason a)\<lparr>a_status := ''rejected''\<rparr>)"
      by simp
  next
    fix role r d'
    let ?f = "\<lambda>x. (withReason reason x)\<lparr>a_status := ''cancelled'', a_cancelledBy := Some role\<rparr>"
    assume h: "(a_status a = ''pending'' \<or> a_status a = ''accepted'') \<and>
       ((\<exists>student. findStudentByUser d uid = Some student \<and>
            a_student a = s_id student \<and> role = ''student'') \<or>
        (findStudentByUser d uid = None \<and>
         (\<exists>faculty. findFacultyByUser d uid = Some faculty \<and>
            a_faculty a = f_id faculty \<and> role = ''faculty''))) \<and>
       length reason \<le> 200 \<and>
       cancelAppointment send d uid appointmentId reason = (r, d')"
    then have role: "cancel_role d uid a = Inr role"
      by (auto simp: cancel_role_student cancel_role_faculty)
    from h have st: "a_status a \<noteq> ''cancelled''" "a_status a \<noteq> ''rejected''"
      and len: "length reason \<le> 200"
      by auto
    from cancel_run [OF assms(1) st role len, of send] h
    have r: "r = (case cancel_notify send d a of Some e \<Rightarrow> server_error e
                  | None \<Rightarrow> respond 200 ''Appointment cancelled successfully'' (?f a))"
      and d': "d' = saveAppointment appointmentId ?f d"
      by (simp_all add: skip)
    show "findAppointment d' appointmentId = Some (?f a)"
      unfolding d' using assms(1) by simp
    show "availabilities d' = availabilities d"
      unfolding d' by simp
    show "r_status r \<noteq> 404"
      unfolding r by (rule code)
    assume "cancel_notify send d a = None"
    with r show "r = respond 200 ''Appointment cancelled successfully'' (?f a)"
      by simp
  next
    fix faculty r d'
    assume h: "findFacultyByUser d uid = Some faculty \<and> a_faculty a = f_id faculty \<and>
       a_status a = ''accepted'' \<and>
       completeAppointment send d uid appointmentId = (r, d')"
    with complete_run [OF _ assms(1), of uid faculty send]
    have r: "r = (case complete_notify send d a of Some e \<Rightarrow> server_error e
                  | None \<Rightarrow> respond 200 ''Appointment marked as completed''
                             (a\<lparr>a_status := ''completed''\<rparr>))"
      and d': "d' = saveAppointment appointmentId (\<lambda>x. x\<lparr>a_status := ''completed''\<rparr>) d"
      by (simp_all add: skip)
    show "findAppointment d' appointmentId = Some (a\<lparr>a_status := ''completed''\<rparr>)"
      unfolding d' using assms(1) by simp
    show "availabilities d' = availabilities d"
      unfolding d' by simp
    show "r_status r \<noteq> 404"
      unfolding r by (rule code)
    assume "complete_notify send d a = None"
    with r show "r = respond 200 ''Appointment marked as completed'' (a\<lparr>a_status := ''completed''\<rparr>)"
      by simp
  qed
qed

theorem missing_slot_release_skipped_witness:
  "findAppointment (campus_gone ''pending'') 1 = Some (ann_appointment ''pending'' None) \<and>
   findAvailability (campus_gone ''pending'') 31 = None \<and>
   updateAppointmentStatus always (campus_gone ''pending'') 3 1 ''rejected'' ''busy'' =
     (respond 200 ''Appointment rejected successfully''
        ((ann_appointment ''rejected'' None)\<lparr>a_cancelReason := Some ''busy''\<rparr>),
      (campus_gone ''pending'')
        \<lparr>appointments := [(ann_appointment ''rejected'' None)\<lparr>a_cancelReason := Some ''busy''\<rparr>]\<rparr>) \<and>
   cancelAppointment always (campus_gone ''pending'') 1 1 [] =
     (respond 200 ''Appointment cancelled successfully''
        (ann_appointment ''cancelled'' (Some ''student'')),
      (campus_gone ''pending'')
        \<lparr>appointments := [ann_appointment ''cancelled'' (Some ''student'')]\<rparr>) \<and>
   completeAppointment always (campus_gone ''accepted'') 3 1 =
     (respond 200 ''Appointment marked as completed'' (ann_appointment ''completed'' None),
      (campus_gone ''accepted'')\<lparr>appointments := [ann_appointment ''completed'' None]\<rparr>)"
proof -
  let ?p = "campus_gone ''pending''" and ?q = "campus_gone ''accepted''"
  let ?u = "updateAppointmentStatus always ?p 3 1 ''rejected'' ''busy''"
  let ?c = "cancelAppointment always ?p 1 1 []"
  let ?k = "completeAppointment always ?q 3 1"
  let ?rao = "\<lparr>f_id = 21, f_user = 3, f_name = ''Rao'', f_appointments = [1]\<rparr>"
  have gone: "findAvailability (campus_gone st) (a_availability (ann_appointment st None)) = None"
    for st
    by (simp add: campus_gone_facts)
  note p = missing_slot_release_skipped
             [OF campus_gone_facts(1) [of "''pending''"] gone, where send = always]
  note q = missing_slot_release_skipped
             [OF campus_gone_facts(1) [of "''accepted''"] gone, where send = always]
  have u: "fst ?u = respond 200 ''Appointment rejected successfully''
                      ((ann_appointment ''rejected'' None)\<lparr>a_cancelReason := Some ''busy''\<rparr>) \<and>
           availabilities (snd ?u) = availabilities ?p \<and>
           findAppointment (snd ?u) 1 =
             Some ((ann_appointment ''rejected'' None)\<lparr>a_cancelReason := Some ''busy''\<rparr>)"
    using p [where uid = 3 and reason = "''busy''", THEN conjunct1, THEN spec [where x = ?rao],
             THEN spec [where x = "fst ?u"], THEN spec [where x = "snd ?u"]]
      campus_gone_facts [of "''pending''"]
    by (simp add: withReason_def ann_appointment_def)
  have c: "fst ?c = respond 200 ''Appointment cancelled successfully''
                      (ann_appointment ''cancelled'' (Some ''student'')) \<and>
           availabilities (snd ?c) = availabilities ?p"
    using p [where uid = 1 and reason = "[]", THEN conjunct2, THEN conjunct1,
             THEN spec [where x = "''student''"], THEN spec [where x = "fst ?c"],
             THEN spec [where x = "snd ?c"]]
      campus_gone_facts [of "''pending''"]
    by (simp add: withReason_def ann_appointment_def)
  have k: "fst ?k = respond 200 ''Appointment marked as completed''
                      (ann_appointment ''completed'' None) \<and>
           availabilities (snd ?k) = availabilities ?q"
    using q [where uid = 3, THEN conjunct2, THEN conjunct2, THEN spec [where x = ?rao],
             THEN spec [where x = "fst ?k"], THEN spec [where x = "snd ?k"]]
      campus_gone_facts [of "''accepted''"]
    by (simp add: ann_appointment_def)
  have e: "snd ?u = ?p\<lparr>appointments := [(ann_appointment ''rejected'' None)\<lparr>a_cancelReason := Some ''busy''\<rparr>]\<rparr>"
    "snd ?c = ?p\<lparr>appointments := [ann_appointment ''cancelled'' (Some ''student'')]\<rparr>"
    "snd ?k = ?q\<lparr>appointments := [ann_appointment ''completed'' None]\<rparr>"
    by (simp_all add: model_defs campus_defs)
  from u c k e campus_gone_facts(1,2) [of "''pending''"] show ?thesis
    by (simp add: prod_eq_iff)
qed

text \<open>
  C10. \<^verbatim>\<open>cancelAppointment\<close> looks at the status before it looks at the caller: when the
  appointment is already cancelled or rejected, every caller \<open>uid\<close>, whoever they are,
  gets the 400 response about the status (the spec's Conflict), never the 403 or 404 of
  the authorization, and the database is left as it was.
\<close>

theorem cancel_terminal_first:
  assumes "findAppointment d appointmentId = Some a"
    and "a_status a = ''cancelled'' \<or> a_status a = ''rejected''"
  shows "cancelAppointment send d uid appointmentId reason =
           (reject 400 (if a_status a = ''cancelled'' then ''Appointment is already cancelled''
                        else ''Cannot cancel a rejected appointment''), d)"
  using assms by (auto simp: cancelAppointment_def)

text \<open>User 4 is Sen, who owns neither side of Ann's appointment; user 99 is nobody.\<close>

theorem cancel_terminal_first_witness:
  "findAppointment (campus_with ''cancelled'' False) 1 = Some (ann_appointment ''cancelled'' None) \<and>
   a_status (ann_appointment ''cancelled'' None) = ''cancelled'' \<and>
   cancelAppointment always (campus_with ''cancelled'' False) 4 1 ''sorry'' =
     (reject 400 ''Appointment is already cancelled'', campus_with ''cancelled'' False) \<and>
   cancelAppointment always (campus_with ''rejected'' False) 99 1 [] =
     (reject 400 ''Cannot cancel a rejected appointment'', campus_with ''rejected'' False)"
proof -
  have c: "findAppointment (campus_with ''cancelled'' False) 1 =
             Some (ann_appointment ''cancelled'' None)"
    and r: "findAppointment (campus_with ''rejected'' False) 1 =
             Some (ann_appointment ''rejected'' None)"
    by (rule campus_with_appointment)+
  show ?thesis
    using c cancel_terminal_first [OF c, of always 4 "''sorry''"]
      cancel_terminal_first [OF r, of always 99 "[]"]
    by simp
qed

end
